theory Spec2Isabelle
  imports Main "HOL-Library.Word"
begin

unbundle bit_operations_syntax

section \<open>Bytes, sizes and status values\<close>

text \<open>
  A \<open>Slice\<close>, a \<open>std::vector\<close> of bytes and the contents of a \<open>RefCntBuffer\<close> are
  byte sequences. \<open>size_t\<close> is 64 bits wide (the only platforms the repository builds for);
  a \<open>size_t\<close> value is a \<open>nat\<close> here, and every place where the source converts
  another integer type to or from \<open>size_t\<close> is written out.
\<close>

type_synonym byte = "8 word"
type_synonym bytes = "byte list"

datatype StatusCode =
  NetworkError | Corruption | InvalidArgument | IllegalState | RuntimeError

text \<open>\<open>Status\<close>: \<open>OK\<close>, or a code with its message (\<open>STATUS(code, msg)\<close>).\<close>

datatype Status = OK | Failure StatusCode string

definition ok :: "Status \<Rightarrow> bool" where
  "ok s = (s = OK)"

definition STATUS :: "StatusCode \<Rightarrow> string \<Rightarrow> Status" where
  "STATUS code msg = Failure code msg"

text \<open>The three-argument form \<open>STATUS(code, msg, msg2)\<close> joins the two texts.\<close>

definition STATUS2 :: "StatusCode \<Rightarrow> string \<Rightarrow> string \<Rightarrow> Status" where
  "STATUS2 code msg msg2 = Failure code (msg @ '': '' @ msg2)"

definition StatusCode_name :: "StatusCode \<Rightarrow> string" where
  "StatusCode_name c =
     (case c of NetworkError \<Rightarrow> ''Network error'' | Corruption \<Rightarrow> ''Corruption''
      | InvalidArgument \<Rightarrow> ''Invalid argument'' | IllegalState \<Rightarrow> ''Illegal state''
      | RuntimeError \<Rightarrow> ''Runtime error'')"

definition Status_ToString :: "Status \<Rightarrow> string" where
  "Status_ToString s =
     (case s of OK \<Rightarrow> ''OK'' | Failure c msg \<Rightarrow> StatusCode_name c @ '': '' @ msg)"

text \<open>Decimal rendering, for the \<open>$0\<close>, \<open>$1\<close> arguments of \<open>strings::Substitute\<close>.\<close>

fun show_nat :: "nat \<Rightarrow> string" where
  "show_nat n =
     (if n < 10 then [char_of (48 + n)]
      else show_nat (n div 10) @ [char_of (48 + n mod 10)])"

definition show_int :: "int \<Rightarrow> string" where
  "show_int i = (if i < 0 then CHR ''-'' # show_nat (nat (- i)) else show_nat (nat i))"

subsection \<open>Constants and flags\<close>

text \<open>
  Modelled from the spec: the length prefix of a frame is 4 bytes (the constant
  \<open>kMsgLengthPrefixLength\<close> is declared outside the sources at hand).
\<close>

definition kMsgLengthPrefixLength :: nat where
  "kMsgLengthPrefixLength = 4"

text \<open>\<open>constexpr size_t kBigPacket = 128_KB\<close>.\<close>

definition kBigPacket :: nat where
  "kBigPacket = 128 * 1024"

text \<open>
  \<open>FLAGS_rpc_max_message_size\<close> is an \<open>int32\<close> flag (default \<open>8_MB\<close>). Wherever the
  source uses it, it is converted to \<open>size_t\<close>: by the return in \<open>BufferLimit\<close> and by the
  comparison with \<open>total_length\<close> in \<open>ProcessCalls\<close>. The conversion sign-extends.
\<close>

type_synonym int32 = "32 word"

definition size_t_of_int32 :: "int32 \<Rightarrow> nat" where
  "size_t_of_int32 v = unat (scast v :: 64 word)"

definition rpc_max_message_size_default :: int32 where
  "rpc_max_message_size_default = 8388608"

definition BufferLimit :: "int32 \<Rightarrow> nat" where
  "BufferLimit FLAGS_rpc_max_message_size = size_t_of_int32 FLAGS_rpc_max_message_size"

text \<open>
  Modelled from the spec: \<open>NetworkByteOrder::Load32\<close> reads the 4-byte unsigned big-endian
  integer at the start of the bytes it is given. Its callers check that 4 bytes are there.
\<close>

definition Load32 :: "bytes \<Rightarrow> 32 word" where
  "Load32 p =
     word_of_nat (unat (p ! 0) * 2 ^ 24 + unat (p ! 1) * 2 ^ 16 + unat (p ! 2) * 2 ^ 8 + unat (p ! 3))"

subsection \<open>The read hint\<close>

definition MaxReceive :: "bytes \<Rightarrow> nat" where
  "MaxReceive existing_data =
     (if length existing_data \<ge> kMsgLengthPrefixLength
      then let data_length = unat (Load32 existing_data)
           in max kBigPacket (data_length + kMsgLengthPrefixLength)
      else kBigPacket)"

section \<open>Protocol records\<close>

text \<open>
  Modelled from the spec: the remote-method designator of a call header carries a service
  name and a method name, both required; it is initialized when both are present, and its
  initialization error text lists the missing ones.
\<close>

record RemoteMethodPB =
  pb_service_name :: "string option"
  pb_method_name :: "string option"

definition RemoteMethodPB_IsInitialized :: "RemoteMethodPB \<Rightarrow> bool" where
  "RemoteMethodPB_IsInitialized rm = (pb_service_name rm \<noteq> None \<and> pb_method_name rm \<noteq> None)"

definition RemoteMethodPB_InitializationErrorString :: "RemoteMethodPB \<Rightarrow> string" where
  "RemoteMethodPB_InitializationErrorString rm =
     (if pb_service_name rm = None \<and> pb_method_name rm = None then ''service_name, method_name''
      else if pb_service_name rm = None then ''service_name''
      else if pb_method_name rm = None then ''method_name''
      else [])"

text \<open>
  Modelled from the spec: the call header holds the call id, an optional remote-method
  designator and an optional relative timeout in milliseconds.
\<close>

record RequestHeader =
  hdr_call_id :: int32
  hdr_remote_method :: "RemoteMethodPB option"
  hdr_timeout_millis :: "32 word option"

definition has_remote_method :: "RequestHeader \<Rightarrow> bool" where
  "has_remote_method h = (hdr_remote_method h \<noteq> None)"

definition has_timeout_millis :: "RequestHeader \<Rightarrow> bool" where
  "has_timeout_millis h = (hdr_timeout_millis h \<noteq> None)"

text \<open>
  The getter of an optional field yields the default when the field is absent: 0 for the
  timeout, the empty designator for the remote method.
\<close>

definition get_remote_method :: "RequestHeader \<Rightarrow> RemoteMethodPB" where
  "get_remote_method h =
     (case hdr_remote_method h of
        None \<Rightarrow> \<lparr>pb_service_name = None, pb_method_name = None\<rparr>
      | Some rm \<Rightarrow> rm)"

definition get_timeout_millis :: "RequestHeader \<Rightarrow> 32 word" where
  "get_timeout_millis h = (case hdr_timeout_millis h of None \<Rightarrow> 0 | Some t \<Rightarrow> t)"

definition RequestHeader_default :: RequestHeader where
  "RequestHeader_default = \<lparr>hdr_call_id = 0, hdr_remote_method = None, hdr_timeout_millis = None\<rparr>"

text \<open>
  The response header: the call id, the error flag, and the sidecar offsets. The offsets are
  \<open>uint32_t\<close> values (\<open>absolute_sidecar_offset\<close> in \<open>SerializeResponseBuffer\<close>).
\<close>

record ResponseHeader =
  resp_call_id :: int32
  is_error :: bool
  sidecar_offsets :: "32 word list"

text \<open>\<open>RemoteMethod\<close>: the service and method names a call keeps (\<open>FromPB\<close> copies them).\<close>

record RemoteMethod =
  service_name :: string
  method_name :: string

definition RemoteMethod_FromPB :: "RemoteMethodPB \<Rightarrow> RemoteMethod" where
  "RemoteMethod_FromPB pb =
     \<lparr>service_name = (case pb_service_name pb of None \<Rightarrow> [] | Some n \<Rightarrow> n),
      method_name = (case pb_method_name pb of None \<Rightarrow> [] | Some n \<Rightarrow> n)\<rparr>"

subsection \<open>Time\<close>

text \<open>
  Modelled from the spec: a \<open>MonoTime\<close> is an instant of the monotonic clock or the
  infinite deadline \<open>MonoTime::Max()\<close>; a \<open>MonoDelta\<close> is an interval. Both count
  microseconds (the finest unit the sources name).
\<close>

datatype MonoTime = MonoTime_Max | MonoTime_At int

datatype MonoDelta = MonoDelta int

definition MonoDelta_FromMilliseconds :: "int \<Rightarrow> MonoDelta" where
  "MonoDelta_FromMilliseconds ms = MonoDelta (ms * 1000)"

fun MonoTime_AddDelta :: "MonoTime \<Rightarrow> MonoDelta \<Rightarrow> MonoTime" where
  "MonoTime_AddDelta (MonoTime_At t) (MonoDelta d) = MonoTime_At (t + d)"
| "MonoTime_AddDelta MonoTime_Max (MonoDelta d) = MonoTime_Max"

subsection \<open>Messages\<close>

datatype RpcErrorCodePB = ERROR_NO_SUCH_METHOD | ERROR_INVALID_REQUEST | ERROR_CODE nat

text \<open>
  A \<open>MessageLite\<close> handed to a responder: an application message (opaque to this layer,
  kept as its field bytes) or the standard error envelope \<open>ErrorStatusPB\<close> with its
  message, its code and its extension slots (extension id, payload).
\<close>

datatype MessageLite =
  ApplicationPB bytes
  | ErrorStatusPB "string option" "RpcErrorCodePB option" "(int \<times> MessageLite) list"

section \<open>The inbound call and its surroundings\<close>

record YBInboundCall =
  header :: RequestHeader
  request_data :: bytes
  serialized_request :: bytes
  remote_method :: RemoteMethod
  sidecars :: "bytes list"
  response_buf :: bytes
  time_received :: MonoTime

text \<open>
  Modelled from the spec: constructing the call records the arrival timestamp; everything
  else starts empty.
\<close>

definition YBInboundCall_new :: "MonoTime \<Rightarrow> YBInboundCall" where
  "YBInboundCall_new now =
     \<lparr>header = RequestHeader_default, request_data = [], serialized_request = [],
      remote_method = \<lparr>service_name = [], method_name = []\<rparr>,
      sidecars = [], response_buf = [], time_received = now\<rparr>"

datatype ConnectionDirection = CLIENT | SERVER

datatype LogSeverity = INFO | WARNING | ERROR

text \<open>
  What the calls of one connection act on: the connection's direction; \<open>tracked\<close>, the state
  kept by collaborators outside these sources (the calls registered by \<open>Store\<close>, the
  response matching of a client connection, the clock); the calls handed to the messenger
  by \<open>QueueInboundCall\<close>; the calls queued for write-out by \<open>QueueResponse\<close> with the flag
  passed to it; and the log.
\<close>

record 't Connection =
  direction :: ConnectionDirection
  tracked :: 't
  inbound_queue :: "YBInboundCall list"
  outbound_queue :: "(YBInboundCall \<times> bool) list"
  logged :: "(LogSeverity \<times> string) list"

text \<open>
  The collaborators whose code is outside these sources, taken as parameters. A function
  that returns a \<open>Status\<close> and writes through pointers is a function to the status and the
  values written.
  \<^item> \<open>ParseYBMessage source\<close>: status, header and payload slice.
  \<^item> \<open>ByteSize msg\<close>: the protobuf byte size, a C \<open>int\<close>.
  \<^item> \<open>SerializeMessage msg param_buf additional_size use_cached_size offset\<close>: status, the
    buffer after the call (\<open>param_buf\<close> is \<open>None\<close> for \<open>nullptr\<close>) and the size stored
    through the last pointer.
  \<^item> \<open>SerializeHeader hdr param_len header_buf reserve\<close>: status, the buffer and the header
    size.
  \<^item> \<open>Store\<close> and \<open>HandleCallResponse\<close>: status and the tracked state after the call.
  \<^item> \<open>Now\<close>: the clock's reading.
  \<^item> \<open>FindKnownExtensionByNumber\<close>: whether an extension id of the error envelope is known.
  \<^item> \<open>dfatal_is_fatal\<close>: whether \<open>LOG(DFATAL)\<close> ends the process (a debug build) or logs
    an error and goes on.
\<close>

record 't collaborators =
  ParseYBMessage :: "bytes \<Rightarrow> Status \<times> RequestHeader \<times> bytes"
  ByteSize :: "MessageLite \<Rightarrow> int"
  SerializeMessage ::
    "MessageLite \<Rightarrow> bytes option \<Rightarrow> 32 word \<Rightarrow> bool \<Rightarrow> nat \<Rightarrow> Status \<times> bytes \<times> nat"
  SerializeHeader :: "ResponseHeader \<Rightarrow> nat \<Rightarrow> bytes \<Rightarrow> nat \<Rightarrow> Status \<times> bytes \<times> nat"
  Store :: "'t \<Rightarrow> YBInboundCall \<Rightarrow> Status \<times> 't"
  HandleCallResponse :: "'t \<Rightarrow> bytes \<Rightarrow> Status \<times> 't"
  Now :: "'t \<Rightarrow> MonoTime"
  FindKnownExtensionByNumber :: "int \<Rightarrow> bool"
  dfatal_is_fatal :: bool

section \<open>Connection context: frames\<close>

subsection \<open>Parsing an inbound call\<close>

text \<open>The status \<open>ParseFrom\<close> returns for a header without a remote method.\<close>

definition no_remote_method :: Status where
  "no_remote_method =
     STATUS Corruption ''Non-connection context request header must specify remote_method''"

text \<open>
  \<open>YBInboundCall::ParseFrom\<close>: the call takes a private copy of the frame body, has the
  envelope decoded from the copy, and adopts the remote method from the header. The trace
  events of the source (\<open>TRACE_EVENT...\<close>) write to the tracing subsystem only and are left
  out, here and in the functions below.
\<close>

definition ParseFrom ::
  "'t collaborators \<Rightarrow> YBInboundCall \<Rightarrow> bytes \<Rightarrow> Status \<times> YBInboundCall" where
  "ParseFrom env call source =
     (let call1 = call\<lparr>request_data := source\<rparr>;
          (s, hdr, payload) = ParseYBMessage env (request_data call1);
          call2 = call1\<lparr>header := hdr, serialized_request := payload\<rparr>
      in if \<not> ok s then (s, call2)
         else if \<not> has_remote_method (header call2) then (no_remote_method, call2)
         else if \<not> RemoteMethodPB_IsInitialized (get_remote_method (header call2))
         then (STATUS2 Corruption ''remote_method in request header is not initialized''
                 (RemoteMethodPB_InitializationErrorString (get_remote_method (header call2))),
               call2)
         else (OK, call2\<lparr>remote_method := RemoteMethod_FromPB (get_remote_method (header call2))\<rparr>))"

text \<open>
  \<open>YBConnectionContext::HandleInboundCall\<close>. \<open>QueueInboundCall\<close> appends the call to the
  messenger's queue. The \<open>DCHECK\<close> that the reactor thread is the current one has no
  counterpart: the model is sequential.
\<close>

definition QueueInboundCall :: "'t Connection \<Rightarrow> YBInboundCall \<Rightarrow> 't Connection" where
  "QueueInboundCall conn call = conn\<lparr>inbound_queue := inbound_queue conn @ [call]\<rparr>"

definition HandleInboundCall ::
  "'t collaborators \<Rightarrow> 't Connection \<Rightarrow> bytes \<Rightarrow> Status \<times> 't Connection" where
  "HandleInboundCall env conn call_data =
     (let call0 = YBInboundCall_new (Now env (tracked conn));
          (s, call) = ParseFrom env call0 call_data
      in if \<not> ok s then (s, conn)
         else let (s', t') = Store env (tracked conn) call;
                  conn' = conn\<lparr>tracked := t'\<rparr>
              in if \<not> ok s' then (s', conn')
                 else (OK, QueueInboundCall conn' call))"

text \<open>
  \<open>YBConnectionContext::HandleCall\<close>. The direction is one of two values, so the
  \<open>LOG(FATAL)\<close> after the switch is not reached.
\<close>

definition HandleCall ::
  "'t collaborators \<Rightarrow> 't Connection \<Rightarrow> bytes \<Rightarrow> Status \<times> 't Connection" where
  "HandleCall env conn call_data =
     (case direction conn of
        CLIENT \<Rightarrow>
          (let (s, t') = HandleCallResponse env (tracked conn) call_data
           in (s, conn\<lparr>tracked := t'\<rparr>))
      | SERVER \<Rightarrow> HandleInboundCall env conn call_data)"

subsection \<open>Extracting frames\<close>

definition frame_too_long :: "nat \<Rightarrow> int32 \<Rightarrow> Status" where
  "frame_too_long total_length FLAGS_rpc_max_message_size =
     STATUS NetworkError
       (''The frame had a length of '' @ show_nat total_length
        @ '', but we only support messages up to ''
        @ show_int (sint FLAGS_rpc_max_message_size) @ '' bytes long.'')"

text \<open>
  The loop of \<open>YBConnectionContext::ProcessCalls\<close>. \<open>pos\<close> is the offset of the source's
  pointer \<open>pos\<close> from \<open>slice.data()\<close>, and \<open>end\<close> is \<open>length slice\<close>. The result is the
  status the loop ends with, the value of \<open>pos\<close> then, and the connection; the status is
  \<open>OK\<close> exactly when the loop is left by its condition or by \<open>break\<close>.
\<close>

function ProcessCalls_loop ::
  "'t collaborators \<Rightarrow> int32 \<Rightarrow> bytes \<Rightarrow> nat \<Rightarrow> 't Connection \<Rightarrow> Status \<times> nat \<times> 't Connection"
  where
  "ProcessCalls_loop env FLAGS_rpc_max_message_size slice' pos conn =
     (if length slice' - pos \<ge> kMsgLengthPrefixLength then
        (let data_length = unat (Load32 (drop pos slice'));
             total_length = data_length + kMsgLengthPrefixLength
         in if total_length > size_t_of_int32 FLAGS_rpc_max_message_size
            then (frame_too_long total_length FLAGS_rpc_max_message_size, pos, conn)
            else (let stop = pos + total_length
                  in if stop > length slice' then (OK, pos, conn)
                     else (let pos' = pos + kMsgLengthPrefixLength;
                               r = HandleCall env conn (take (stop - pos') (drop pos' slice'))
                           in if \<not> ok (fst r) then (fst r, pos', snd r)
                              else ProcessCalls_loop env FLAGS_rpc_max_message_size slice' stop
                                     (snd r))))
      else (OK, pos, conn))"
  by pat_completeness auto
termination
  by (relation "measure (\<lambda>(env, flag, slice', pos, conn). length slice' - pos)")
    (auto simp: kMsgLengthPrefixLength_def)

text \<open>
  \<open>ProcessCalls\<close> itself: \<open>consumed\<close> is the value behind the pointer \<open>consumed\<close> when the
  function is entered; the second component of the result is the value behind it when the
  function returns. The source assigns it only after the loop.
\<close>

definition ProcessCalls ::
  "'t collaborators \<Rightarrow> int32 \<Rightarrow> 't Connection \<Rightarrow> bytes \<Rightarrow> nat \<Rightarrow> Status \<times> nat \<times> 't Connection"
  where
  "ProcessCalls env FLAGS_rpc_max_message_size conn slice' consumed =
     (case ProcessCalls_loop env FLAGS_rpc_max_message_size slice' 0 conn of
        (s, pos, conn') \<Rightarrow> if ok s then (OK, pos - 0, conn') else (s, consumed, conn'))"

text \<open>
  Modelled from the spec: the connection's read loop (outside these sources) appends each
  chunk that arrives to the unconsumed bytes, hands them to \<open>ProcessCalls\<close>, and drops the
  consumed prefix; an error ends it. The result is the last status, the bytes left
  unconsumed and the connection.
\<close>

fun feed ::
  "'t collaborators \<Rightarrow> int32 \<Rightarrow> 't Connection \<Rightarrow> bytes \<Rightarrow> bytes list \<Rightarrow> Status \<times> bytes \<times> 't Connection"
  where
  "feed env flag conn buf [] = (OK, buf, conn)"
| "feed env flag conn buf (chunk # chunks) =
     (case ProcessCalls env flag conn (buf @ chunk) 0 of
        (s, consumed, conn') \<Rightarrow>
          if ok s then feed env flag conn' (drop consumed (buf @ chunk)) chunks
          else (s, buf @ chunk, conn'))"

section \<open>Inbound call: deadline and response\<close>

definition GetClientDeadline :: "YBInboundCall \<Rightarrow> MonoTime" where
  "GetClientDeadline call =
     (if \<not> has_timeout_millis (header call) \<or> get_timeout_millis (header call) = 0
      then MonoTime_Max
      else MonoTime_AddDelta (time_received call)
             (MonoDelta_FromMilliseconds (uint (get_timeout_millis (header call)))))"

subsection \<open>Serializing the response\<close>

text \<open>
  The loop over \<open>sidecars_\<close> in \<open>SerializeResponseBuffer\<close>, on the header under
  construction and \<open>absolute_sidecar_offset\<close>. The offset is a \<open>uint32_t\<close>: adding
  \<open>car.size()\<close> to it wraps.
\<close>

fun add_sidecar_offsets ::
  "bytes list \<Rightarrow> ResponseHeader \<times> 32 word \<Rightarrow> ResponseHeader \<times> 32 word" where
  "add_sidecar_offsets [] acc = acc"
| "add_sidecar_offsets (car # cars) (resp_hdr, absolute_sidecar_offset) =
     add_sidecar_offsets cars
       (resp_hdr\<lparr>sidecar_offsets := sidecar_offsets resp_hdr @ [absolute_sidecar_offset]\<rparr>,
        absolute_sidecar_offset + word_of_nat (length car))"

text \<open>
  The first part of \<open>SerializeResponseBuffer\<close>, up to the end of the loop: the response
  header it builds and the final \<open>absolute_sidecar_offset\<close>.
\<close>

definition build_resp_hdr :: "YBInboundCall \<Rightarrow> 32 word \<Rightarrow> bool \<Rightarrow> ResponseHeader \<times> 32 word" where
  "build_resp_hdr call protobuf_msg_size is_success =
     add_sidecar_offsets (sidecars call)
       (\<lparr>resp_call_id = hdr_call_id (header call), is_error = \<not> is_success, sidecar_offsets = []\<rparr>,
        protobuf_msg_size)"

text \<open>
  \<open>message_size + additional_size\<close> adds a C \<open>int\<close> to a \<open>size_t\<close>: the \<open>int\<close> is
  converted to \<open>size_t\<close> and the sum is taken modulo \<open>2 ^ 64\<close>.
\<close>

definition size_t_plus_int :: "nat \<Rightarrow> 32 word \<Rightarrow> nat" where
  "size_t_plus_int n i = (n + size_t_of_int32 i) mod 2 ^ 64"

definition SerializeResponseBuffer ::
  "'t collaborators \<Rightarrow> YBInboundCall \<Rightarrow> MessageLite \<Rightarrow> bool \<Rightarrow> Status \<times> YBInboundCall" where
  "SerializeResponseBuffer env call response is_success =
     (let protobuf_msg_size = (word_of_int (ByteSize env response) :: 32 word);
          (resp_hdr, absolute_sidecar_offset) = build_resp_hdr call protobuf_msg_size is_success;
          additional_size = absolute_sidecar_offset - protobuf_msg_size;
          (status, unused_buf, message_size) =
             SerializeMessage env response None additional_size True 0
      in if \<not> ok status then (status, call)
         else (let (status2, buf2, header_size) =
                     SerializeHeader env resp_hdr (size_t_plus_int message_size additional_size)
                       (response_buf call) message_size;
                   call2 = call\<lparr>response_buf := buf2\<rparr>
               in if \<not> ok status2 then (status2, call2)
                  else (let (status3, buf3, unused_size) =
                              SerializeMessage env response (Some (response_buf call2))
                                additional_size True header_size
                        in (status3, call2\<lparr>response_buf := buf3\<rparr>))))"

text \<open>
  Names for two values of \<open>SerializeResponseBuffer\<close>: the payload size it computes first
  (\<open>protobuf_msg_size\<close>, the byte size of the response as a \<open>uint32_t\<close>), and the response
  header it has built when the loop over the sidecars ends.
\<close>

definition payload_size :: "'t collaborators \<Rightarrow> MessageLite \<Rightarrow> nat" where
  "payload_size env response = unat (word_of_int (ByteSize env response) :: 32 word)"

definition response_header ::
  "'t collaborators \<Rightarrow> YBInboundCall \<Rightarrow> MessageLite \<Rightarrow> bool \<Rightarrow> ResponseHeader" where
  "response_header env call response is_success =
     fst (build_resp_hdr call (word_of_int (ByteSize env response)) is_success)"

text \<open>
  \<open>YBInboundCall::Serialize\<close>: \<open>None\<close> when \<open>CHECK_GT(response_buf_.size(), 0)\<close> fails
  (the process ends there), otherwise the output queue with the response buffer and then
  every sidecar pushed to its back.
\<close>

definition Serialize :: "YBInboundCall \<Rightarrow> bytes list \<Rightarrow> bytes list option" where
  "Serialize call output =
     (if length (response_buf call) > 0
      then Some (foldl (\<lambda>out car. out @ [car]) (output @ [response_buf call]) (sidecars call))
      else None)"

subsection \<open>Responding\<close>

text \<open>A run that returns, or one that a fatal log message ends.\<close>

datatype 'a outcome = Returns 'a | Aborts string

definition LOG_DFATAL :: "'t collaborators \<Rightarrow> 't Connection \<Rightarrow> string \<Rightarrow> 't Connection outcome" where
  "LOG_DFATAL env conn msg =
     (if dfatal_is_fatal env then Aborts msg
      else Returns (conn\<lparr>logged := logged conn @ [(ERROR, msg)]\<rparr>))"

text \<open>
  Modelled from the spec: \<open>QueueResponse\<close> (of the base class, outside these sources)
  queues the call for write-out on its connection.
\<close>

definition QueueResponse :: "'t Connection \<Rightarrow> YBInboundCall \<Rightarrow> bool \<Rightarrow> 't Connection" where
  "QueueResponse conn call is_success =
     conn\<lparr>outbound_queue := outbound_queue conn @ [(call, is_success)]\<rparr>"

text \<open>The text \<open>Respond\<close> logs when the response cannot be serialized.\<close>

definition unable_to_serialize :: "Status \<Rightarrow> string" where
  "unable_to_serialize s = ''Unable to serialize response: '' @ Status_ToString s"

definition Respond ::
  "'t collaborators \<Rightarrow> 't Connection \<Rightarrow> YBInboundCall \<Rightarrow> MessageLite \<Rightarrow> bool
    \<Rightarrow> ('t Connection \<times> YBInboundCall) outcome" where
  "Respond env conn call response is_success =
     (let (s, call') = SerializeResponseBuffer env call response is_success
      in case (if \<not> ok s
               then LOG_DFATAL env conn (unable_to_serialize s)
               else Returns conn) of
           Aborts msg \<Rightarrow> Aborts msg
         | Returns conn' \<Rightarrow> Returns (QueueResponse conn' call' is_success, call'))"

definition RespondSuccess ::
  "'t collaborators \<Rightarrow> 't Connection \<Rightarrow> YBInboundCall \<Rightarrow> MessageLite
    \<Rightarrow> ('t Connection \<times> YBInboundCall) outcome" where
  "RespondSuccess env conn call response = Respond env conn call response True"

fun set_message :: "MessageLite \<Rightarrow> string \<Rightarrow> MessageLite" where
  "set_message (ErrorStatusPB m c exts) msg = ErrorStatusPB (Some msg) c exts"
| "set_message (ApplicationPB b) msg = ApplicationPB b"

fun set_code :: "MessageLite \<Rightarrow> RpcErrorCodePB \<Rightarrow> MessageLite" where
  "set_code (ErrorStatusPB m c exts) code = ErrorStatusPB m (Some code) exts"
| "set_code (ApplicationPB b) code = ApplicationPB b"

text \<open>Merging a payload into the extension slot of a fresh envelope fills the slot.\<close>

fun merge_extension :: "MessageLite \<Rightarrow> int \<Rightarrow> MessageLite \<Rightarrow> MessageLite" where
  "merge_extension (ErrorStatusPB m c exts) ext_id payload = ErrorStatusPB m c (exts @ [(ext_id, payload)])"
| "merge_extension (ApplicationPB b) ext_id payload = ApplicationPB b"

definition RespondFailure ::
  "'t collaborators \<Rightarrow> 't Connection \<Rightarrow> YBInboundCall \<Rightarrow> RpcErrorCodePB \<Rightarrow> Status
    \<Rightarrow> ('t Connection \<times> YBInboundCall) outcome" where
  "RespondFailure env conn call error_code status =
     (let err = ErrorStatusPB None None [];
          err1 = set_message err (Status_ToString status);
          err2 = set_code err1 error_code
      in Respond env conn call err2 False)"

definition ApplicationErrorToPB ::
  "'t collaborators \<Rightarrow> 't Connection \<Rightarrow> int \<Rightarrow> string \<Rightarrow> MessageLite \<Rightarrow> MessageLite
    \<Rightarrow> ('t Connection \<times> MessageLite) outcome" where
  "ApplicationErrorToPB env conn error_ext_id message app_error_pb err =
     (let err1 = set_message err message
      in if FindKnownExtensionByNumber env error_ext_id
         then Returns (conn, merge_extension err1 error_ext_id app_error_pb)
         else case LOG_DFATAL env conn
                     (''Unable to find application error extension ID '' @ show_int error_ext_id
                      @ '' (message='' @ message @ '')'') of
                Aborts msg \<Rightarrow> Aborts msg
              | Returns conn' \<Rightarrow> Returns (conn', err1))"

definition RespondApplicationError ::
  "'t collaborators \<Rightarrow> 't Connection \<Rightarrow> YBInboundCall \<Rightarrow> int \<Rightarrow> string \<Rightarrow> MessageLite
    \<Rightarrow> ('t Connection \<times> YBInboundCall) outcome" where
  "RespondApplicationError env conn call error_ext_id message app_error_pb =
     (case ApplicationErrorToPB env conn error_ext_id message app_error_pb
             (ErrorStatusPB None None []) of
        Aborts msg \<Rightarrow> Aborts msg
      | Returns (conn', err) \<Rightarrow> Respond env conn' call err False)"

section \<open>Frames as the spec describes them\<close>

text \<open>
  A frame is a 4-byte big-endian length field followed by exactly that many bytes of body.
  \<open>whole_frames bs\<close> holds when \<open>bs\<close> is a sequence of such frames and nothing else.
\<close>

function whole_frames :: "bytes \<Rightarrow> bool" where
  "whole_frames bs =
     (if bs = [] then True
      else if length bs < 4 then False
      else if length bs < 4 + unat (Load32 bs) then False
      else whole_frames (drop (4 + unat (Load32 bs)) bs))"
  by pat_completeness auto
termination
  by (relation "measure length") auto

text \<open>
  Modelled from the spec: the envelope parser outside these sources reports a failure to
  decode as a corruption.
\<close>

definition is_corruption :: "Status \<Rightarrow> bool" where
  "is_corruption s = (case s of OK \<Rightarrow> False | Failure c msg \<Rightarrow> c = Corruption)"

definition parser_contract :: "'t collaborators \<Rightarrow> bool" where
  "parser_contract env = (\<forall>source. case ParseYBMessage env source of
      (s, hdr, payload) \<Rightarrow> ok s \<or> is_corruption s)"

section \<open>Example collaborators\<close>

text \<open>
  Simple collaborators to run the definitions on concrete inputs. A frame body is a call
  id byte, a byte that says how much of the remote method is there (0: none, 1: the service
  name only, otherwise both names), a timeout byte (0: no timeout field; \<open>255\<close>: a timeout
  of zero) and the payload. The tracked state is the ids of the calls being handled and the
  response bodies a client connection has seen.
\<close>

definition example_ParseYBMessage :: "bytes \<Rightarrow> Status \<times> RequestHeader \<times> bytes" where
  "example_ParseYBMessage source =
     (case source of
        c # m # t # payload \<Rightarrow>
          (OK,
           \<lparr>hdr_call_id = ucast c,
            hdr_remote_method =
              (if m = 0 then None
               else if m = 1 then Some \<lparr>pb_service_name = Some ''svc'', pb_method_name = None\<rparr>
               else Some \<lparr>pb_service_name = Some ''svc'', pb_method_name = Some ''get''\<rparr>),
            hdr_timeout_millis =
              (if t = 0 then None else if t = 255 then Some 0 else Some (ucast t))\<rparr>,
           payload)
      | _ \<Rightarrow> (STATUS Corruption ''Invalid packet: data too short'', RequestHeader_default, []))"

fun example_ByteSize :: "MessageLite \<Rightarrow> int" where
  "example_ByteSize (ApplicationPB b) = int (length b mod 2 ^ 31)"
| "example_ByteSize (ErrorStatusPB m c exts) = 2"

definition example_SerializeHeader ::
  "ResponseHeader \<Rightarrow> nat \<Rightarrow> bytes \<Rightarrow> nat \<Rightarrow> Status \<times> bytes \<times> nat" where
  "example_SerializeHeader hdr param_len buf reserve =
     (let h = [ucast (resp_call_id hdr), if is_error hdr then 1 else 0]
              @ map ucast (sidecar_offsets hdr)
      in (OK, h @ replicate reserve 0, length h))"

definition example_SerializeMessage ::
  "MessageLite \<Rightarrow> bytes option \<Rightarrow> 32 word \<Rightarrow> bool \<Rightarrow> nat \<Rightarrow> Status \<times> bytes \<times> nat" where
  "example_SerializeMessage msg param_buf additional_size cached offset =
     (OK, (case param_buf of None \<Rightarrow> [] | Some b \<Rightarrow> b), nat (example_ByteSize msg))"

definition example_Store :: "32 word list \<times> bytes list \<Rightarrow> YBInboundCall
    \<Rightarrow> Status \<times> (32 word list \<times> bytes list)" where
  "example_Store t call =
     (if hdr_call_id (header call) \<in> set (fst t)
      then (STATUS NetworkError ''Received a call ID that is already being processed'', t)
      else (OK, (fst t @ [hdr_call_id (header call)], snd t)))"

definition example_env :: "(32 word list \<times> bytes list) collaborators" where
  "example_env =
     \<lparr>ParseYBMessage = example_ParseYBMessage,
      ByteSize = example_ByteSize,
      SerializeMessage = example_SerializeMessage,
      SerializeHeader = example_SerializeHeader,
      Store = example_Store,
      HandleCallResponse = (\<lambda>t body. (OK, (fst t, snd t @ [body]))),
      Now = (\<lambda>t. MonoTime_At 5000),
      FindKnownExtensionByNumber = (\<lambda>i. i = 101),
      dfatal_is_fatal = False\<rparr>"

text \<open>The same collaborators with a payload serializer that reports an error.\<close>

definition failing_env :: "(32 word list \<times> bytes list) collaborators" where
  "failing_env =
     example_env\<lparr>SerializeMessage :=
       (\<lambda>msg param_buf additional_size cached offset.
          (STATUS InvalidArgument ''RPC argument missing required fields'',
           (case param_buf of None \<Rightarrow> [] | Some b \<Rightarrow> b), 0))\<rparr>"

text \<open>
  The same collaborators with a payload serializer that puts a one-byte length delimiter
  before the payload: the size it reports is the byte size of the payload plus 1.
\<close>

definition delimiting_env :: "(32 word list \<times> bytes list) collaborators" where
  "delimiting_env =
     example_env\<lparr>SerializeMessage :=
       (\<lambda>msg param_buf additional_size cached offset.
          (OK, (case param_buf of None \<Rightarrow> [] | Some b \<Rightarrow> b), nat (example_ByteSize msg) + 1))\<rparr>"

definition example_conn :: "ConnectionDirection \<Rightarrow> (32 word list \<times> bytes list) Connection" where
  "example_conn d =
     \<lparr>direction = d, tracked = ([], []), inbound_queue = [], outbound_queue = [], logged = []\<rparr>"

text \<open>A stream of two frames and the start of a third, cut into four chunks.\<close>

definition example_stream_chunks :: "bytes list" where
  "example_stream_chunks = [[0, 0], [0, 2, 0xAA], [0xBB, 0, 0, 0, 1, 0xCC, 0, 0], [0, 5, 1]]"

text \<open>A sidecar of \<open>2 ^ 32\<close> bytes.\<close>

definition huge_sidecar :: bytes where
  "huge_sidecar = replicate (2 ^ 32) 0"

text \<open>
  A call with the id 7 and two sidecars of 3 and 2 bytes, and a call whose first sidecar has
  \<open>2 ^ 32\<close> bytes.
\<close>

definition example_call :: YBInboundCall where
  "example_call =
     (YBInboundCall_new (MonoTime_At 5000))
       \<lparr>header := RequestHeader_default\<lparr>hdr_call_id := 7\<rparr>, sidecars := [[1, 2, 3], [4, 5]]\<rparr>"

definition huge_call :: YBInboundCall where
  "huge_call = (YBInboundCall_new (MonoTime_At 5000))\<lparr>sidecars := [huge_sidecar, [1]]\<rparr>"

declare ProcessCalls_loop.simps [simp del]
declare whole_frames.simps [simp del]

section \<open>Properties\<close>

lemma Load32_unat:
  "unat (Load32 p) = unat (p ! 0) * 2 ^ 24 + unat (p ! 1) * 2 ^ 16 + unat (p ! 2) * 2 ^ 8 + unat (p ! 3)"
proof -
  have b: "unat (p ! 0) < 256" "unat (p ! 1) < 256" "unat (p ! 2) < 256" "unat (p ! 3) < 256"
    using unsigned_less [of "p ! 0", where 'a = nat] unsigned_less [of "p ! 1", where 'a = nat]
      unsigned_less [of "p ! 2", where 'a = nat] unsigned_less [of "p ! 3", where 'a = nat]
    by simp_all
  then have "unat (p ! 0) * 2 ^ 24 + unat (p ! 1) * 2 ^ 16 + unat (p ! 2) * 2 ^ 8 + unat (p ! 3)
      < 2 ^ 32"
    by simp
  then show ?thesis
    unfolding Load32_def unat_of_nat by simp
qed

subsection \<open>Read hint\<close>

text \<open>
  Claim C9. \<open>MaxReceive\<close> returns the fixed big-packet threshold (128 KB) when fewer than 4
  bytes are buffered; otherwise it returns the larger of that threshold and the first frame's
  total size: the 4 bytes of the prefix plus the body length the prefix declares, read
  big-endian.
\<close>

theorem MaxReceive_hint:
  "MaxReceive existing_data =
     (if length existing_data < 4 then 131072
      else max 131072
             (4 + (unat (existing_data ! 0) * 2 ^ 24 + unat (existing_data ! 1) * 2 ^ 16
                   + unat (existing_data ! 2) * 2 ^ 8 + unat (existing_data ! 3))))"
  by (simp add: MaxReceive_def kMsgLengthPrefixLength_def kBigPacket_def Load32_unat Let_def
      add.commute)

subsection \<open>Oversize frames\<close>

lemma frame_too_long_not_ok: "\<not> ok (frame_too_long n flag)"
  by (simp add: frame_too_long_def STATUS_def ok_def)

lemma ProcessCalls_loop_oversize:
  "pos + 4 \<le> length s \<Longrightarrow> size_t_of_int32 flag < unat (Load32 (drop pos s)) + 4 \<Longrightarrow>
   ProcessCalls_loop env flag s pos conn
     = (frame_too_long (unat (Load32 (drop pos s)) + 4) flag, pos, conn)"
  by (subst ProcessCalls_loop.simps) (auto simp add: kMsgLengthPrefixLength_def Let_def)

text \<open>
  Claim C2. When the buffer holds a complete length prefix and the declared body length plus
  4 exceeds the configured maximum message size (the flag as \<open>BufferLimit\<close> reads it),
  \<open>ProcessCalls\<close> returns a network error, however few body bytes are there: nothing is
  assumed about the length of the buffer beyond the 4 bytes of the prefix. No frame is
  handled, and the value behind \<open>consumed\<close> stays what it was.
\<close>

theorem ProcessCalls_oversize:
  assumes "4 \<le> length s" and "BufferLimit flag < unat (Load32 s) + 4"
  shows "\<exists>msg. ProcessCalls env flag conn s consumed = (Failure NetworkError msg, consumed, conn)"
proof -
  have "ProcessCalls_loop env flag s 0 conn = (frame_too_long (unat (Load32 s) + 4) flag, 0, conn)"
    using assms ProcessCalls_loop_oversize [of 0 s flag env conn]
    by (simp add: BufferLimit_def)
  then show ?thesis
    by (simp add: ProcessCalls_def frame_too_long_not_ok) (simp add: frame_too_long_def STATUS_def)
qed

text \<open>
  The prefix alone, declaring 9000000 body bytes of which none has arrived, under the
  default limit.
\<close>

theorem ProcessCalls_oversize_witness:
  "\<exists>msg. ProcessCalls example_env 8388608 (example_conn SERVER) [0, 0x89, 0x54, 0x40] 0
      = (Failure NetworkError msg, 0, example_conn SERVER)"
  using ProcessCalls_oversize [of "[0, 0x89, 0x54, 0x40]" 8388608 example_env "example_conn SERVER" 0]
  by (simp add: BufferLimit_def size_t_of_int32_def Load32_def)

text \<open>
  Claim C4 says that in scenario B \<open>ProcessCalls\<close> reports zero bytes through \<open>consumed\<close>.
  The source returns the error before the only assignment to \<open>*consumed\<close>: a caller that
  passes a variable holding 7 finds 7 in it afterwards.
\<close>

theorem ProcessCalls_scenario_B_consumed_counterexample:
  "ProcessCalls example_env rpc_max_message_size_default (example_conn SERVER)
      [0, 0x89, 0x54, 0x40] 7
     = (frame_too_long 9000004 rpc_max_message_size_default, 7, example_conn SERVER)
   \<and> fst (snd (ProcessCalls example_env rpc_max_message_size_default (example_conn SERVER)
      [0, 0x89, 0x54, 0x40] 7)) \<noteq> 0"
proof -
  have "ProcessCalls_loop example_env rpc_max_message_size_default [0, 0x89, 0x54, 0x40] 0
          (example_conn SERVER)
        = (frame_too_long 9000004 rpc_max_message_size_default, 0, example_conn SERVER)"
    using ProcessCalls_loop_oversize [of 0 "[0, 0x89, 0x54, 0x40]" rpc_max_message_size_default
        example_env "example_conn SERVER"]
    by (simp add: size_t_of_int32_def Load32_def rpc_max_message_size_default_def)
  then show ?thesis
    by (simp add: ProcessCalls_def frame_too_long_not_ok)
qed

text \<open>
  Claim C4, amended. When the first frame's prefix declares 9000000 and the maximum message
  size is 8388608, \<open>ProcessCalls\<close> returns the oversize (network) error, hands no frame to
  \<open>HandleCall\<close> (the connection is unchanged) and does not write \<open>consumed\<close>: the caller
  reads back the value it put there, zero if it initialised it to zero.
\<close>

theorem ProcessCalls_scenario_B:
  "ProcessCalls env 8388608 conn (0 # 0x89 # 0x54 # 0x40 # rest) consumed
     = (frame_too_long 9000004 8388608, consumed, conn)
   \<and> (\<exists>msg. frame_too_long 9000004 8388608 = Failure NetworkError msg)"
proof -
  have "ProcessCalls_loop env 8388608 (0 # 0x89 # 0x54 # 0x40 # rest) 0 conn
        = (frame_too_long 9000004 8388608, 0, conn)"
    using ProcessCalls_loop_oversize [of 0 "0 # 0x89 # 0x54 # 0x40 # rest" 8388608 env conn]
    by (simp add: size_t_of_int32_def Load32_def)
  then show ?thesis
    by (simp add: ProcessCalls_def frame_too_long_not_ok) (simp add: frame_too_long_def STATUS_def)
qed

subsection \<open>Frames that arrive in pieces\<close>

lemma Load32_append: "4 \<le> length xs \<Longrightarrow> Load32 (xs @ ys) = Load32 xs"
  by (auto simp add: Load32_def nth_append)

lemma Load32_drop_append:
  "pos + 4 \<le> length xs \<Longrightarrow> Load32 (drop pos (xs @ ys)) = Load32 (drop pos xs)"
  by (simp add: Load32_append)

lemma Load32_drop_take:
  "pos + 4 \<le> p \<Longrightarrow> p \<le> length s \<Longrightarrow> Load32 (drop pos (take p s)) = Load32 (drop pos s)"
  by (simp add: Load32_def)

text \<open>Bytes before the position shift the loop.\<close>

lemma ProcessCalls_loop_shift:
  "ProcessCalls_loop env flag (zs @ xs) (length zs + pos) conn
     = (case ProcessCalls_loop env flag xs pos conn of (s, p, c) \<Rightarrow> (s, length zs + p, c))"
proof (induction env flag xs pos conn rule: ProcessCalls_loop.induct)
  case (1 env flag xs pos conn)
  show ?case
    apply (subst ProcessCalls_loop.simps)
    apply (subst (2) ProcessCalls_loop.simps)
    using 1
    apply (simp add: Let_def kMsgLengthPrefixLength_def add.assoc)
    done
qed

lemma ProcessCalls_loop_drop:
  assumes "pos \<le> length xs"
  shows "ProcessCalls_loop env flag xs pos conn
     = (case ProcessCalls_loop env flag (drop pos xs) 0 conn of (s, p, c) \<Rightarrow> (s, pos + p, c))"
  using ProcessCalls_loop_shift [of env flag "take pos xs" "drop pos xs" 0 conn] assms
  by simp

text \<open>Bytes after the end: a run that ended well goes on from where it stopped.\<close>

lemma ProcessCalls_loop_append:
  "ProcessCalls_loop env flag (xs @ ys) pos conn
     = (case ProcessCalls_loop env flag xs pos conn of
          (s, p, c) \<Rightarrow> if ok s then ProcessCalls_loop env flag (xs @ ys) p c else (s, p, c))"
proof (induction env flag xs pos conn rule: ProcessCalls_loop.induct)
  case (1 env flag xs pos conn)
  let ?total = "unat (Load32 (drop pos xs)) + 4"
  have long: "4 \<le> length xs - pos \<Longrightarrow> 4 \<le> length xs + length ys - pos"
    by arith
  let ?r = "HandleCall env conn (take (unat (Load32 (drop pos xs))) (drop (pos + 4) xs))"
  consider (short) "\<not> 4 \<le> length xs - pos"
    | (oversize) "4 \<le> length xs - pos" "size_t_of_int32 flag < ?total"
    | (partial) "4 \<le> length xs - pos" "\<not> size_t_of_int32 flag < ?total" "length xs < pos + ?total"
    | (failed) "4 \<le> length xs - pos" "\<not> size_t_of_int32 flag < ?total"
        "\<not> length xs < pos + ?total" "\<not> ok (fst ?r)"
    | (handled) "4 \<le> length xs - pos" "\<not> size_t_of_int32 flag < ?total"
        "\<not> length xs < pos + ?total" "ok (fst ?r)"
    by blast
  then show ?case
  proof cases
    case short
    then have "ProcessCalls_loop env flag xs pos conn = (OK, pos, conn)"
      by (subst ProcessCalls_loop.simps) (simp add: kMsgLengthPrefixLength_def)
    then show ?thesis by (simp add: ok_def)
  next
    case oversize
    then have "ProcessCalls_loop env flag xs pos conn = (frame_too_long ?total flag, pos, conn)"
      by (subst ProcessCalls_loop.simps) (simp add: kMsgLengthPrefixLength_def Let_def)
    moreover from oversize
    have "ProcessCalls_loop env flag (xs @ ys) pos conn = (frame_too_long ?total flag, pos, conn)"
      by (subst ProcessCalls_loop.simps)
        (simp add: kMsgLengthPrefixLength_def Let_def Load32_append long)
    ultimately show ?thesis
      by (simp add: frame_too_long_def STATUS_def ok_def)
  next
    case partial
    then have "ProcessCalls_loop env flag xs pos conn = (OK, pos, conn)"
      by (subst ProcessCalls_loop.simps) (simp add: kMsgLengthPrefixLength_def Let_def)
    then show ?thesis by (simp add: ok_def)
  next
    case failed
    then have "ProcessCalls_loop env flag xs pos conn = (fst ?r, pos + 4, snd ?r)"
      by (subst ProcessCalls_loop.simps) (simp add: kMsgLengthPrefixLength_def Let_def)
    moreover from failed
    have "ProcessCalls_loop env flag (xs @ ys) pos conn = (fst ?r, pos + 4, snd ?r)"
      by (subst ProcessCalls_loop.simps)
        (simp add: kMsgLengthPrefixLength_def Let_def Load32_append long)
    ultimately show ?thesis
      using failed by simp
  next
    case handled
    then have "ProcessCalls_loop env flag xs pos conn
        = ProcessCalls_loop env flag xs (pos + ?total) (snd ?r)"
      by (subst ProcessCalls_loop.simps) (simp add: kMsgLengthPrefixLength_def Let_def)
    moreover from handled
    have "ProcessCalls_loop env flag (xs @ ys) pos conn
        = ProcessCalls_loop env flag (xs @ ys) (pos + ?total) (snd ?r)"
      by (subst ProcessCalls_loop.simps)
        (simp add: kMsgLengthPrefixLength_def Let_def Load32_append long)
    moreover from handled "1.IH"
    have "ProcessCalls_loop env flag (xs @ ys) (pos + ?total) (snd ?r)
        = (case ProcessCalls_loop env flag xs (pos + ?total) (snd ?r) of
             (s, p, c) \<Rightarrow> if ok s then ProcessCalls_loop env flag (xs @ ys) p c else (s, p, c))"
      by (simp add: kMsgLengthPrefixLength_def)
    ultimately show ?thesis by simp
  qed
qed


lemma ProcessCalls_loop_final:
  assumes "ProcessCalls_loop env flag xs pos conn = (OK, p, c)"
  shows "ProcessCalls_loop env flag xs p c = (OK, p, c)"
  using ProcessCalls_loop_append [of env flag xs "[]" pos conn] assms
  by (simp add: ok_def)

lemma whole_frames_Nil: "whole_frames []"
  by (subst whole_frames.simps) simp

lemma ProcessCalls_loop_whole_frames:
  "pos \<le> length s \<Longrightarrow> ProcessCalls_loop env flag s pos conn = (OK, p, c) \<Longrightarrow>
   pos \<le> p \<and> p \<le> length s \<and> whole_frames (drop pos (take p s))
   \<and> (length s - p < 4 \<or> length s - p < 4 + unat (Load32 (drop p s)))"
proof (induction env flag s pos conn rule: ProcessCalls_loop.induct)
  case (1 env flag s pos conn)
  let ?n = "unat (Load32 (drop pos s))"
  let ?r = "HandleCall env conn (take ?n (drop (pos + 4) s))"
  consider (short) "\<not> 4 \<le> length s - pos"
    | (oversize) "4 \<le> length s - pos" "size_t_of_int32 flag < ?n + 4"
    | (partial) "4 \<le> length s - pos" "\<not> size_t_of_int32 flag < ?n + 4" "length s < pos + (?n + 4)"
    | (failed) "4 \<le> length s - pos" "\<not> size_t_of_int32 flag < ?n + 4"
        "\<not> length s < pos + (?n + 4)" "\<not> ok (fst ?r)"
    | (handled) "4 \<le> length s - pos" "\<not> size_t_of_int32 flag < ?n + 4"
        "\<not> length s < pos + (?n + 4)" "ok (fst ?r)"
    by blast
  then show ?case
  proof cases
    case short
    then have "ProcessCalls_loop env flag s pos conn = (OK, pos, conn)"
      by (subst ProcessCalls_loop.simps) (simp add: kMsgLengthPrefixLength_def)
    with "1.prems" short show ?thesis
      by (auto simp add: whole_frames_Nil)
  next
    case oversize
    then have "ProcessCalls_loop env flag s pos conn = (frame_too_long (?n + 4) flag, pos, conn)"
      by (subst ProcessCalls_loop.simps) (simp add: kMsgLengthPrefixLength_def Let_def)
    with "1.prems" show ?thesis
      by (simp add: frame_too_long_def STATUS_def)
  next
    case partial
    then have "ProcessCalls_loop env flag s pos conn = (OK, pos, conn)"
      by (subst ProcessCalls_loop.simps) (simp add: kMsgLengthPrefixLength_def Let_def)
    with "1.prems" partial show ?thesis
      by (auto simp add: whole_frames_Nil)
  next
    case failed
    then have "ProcessCalls_loop env flag s pos conn = (fst ?r, pos + 4, snd ?r)"
      by (subst ProcessCalls_loop.simps) (simp add: kMsgLengthPrefixLength_def Let_def)
    with "1.prems"(2) have "fst ?r = OK"
      by (metis fst_conv)
    with failed show ?thesis
      by (simp add: ok_def)
  next
    case handled
    then have "ProcessCalls_loop env flag s pos conn
        = ProcessCalls_loop env flag s (pos + (?n + 4)) (snd ?r)"
      by (subst ProcessCalls_loop.simps) (simp add: kMsgLengthPrefixLength_def Let_def)
    with "1.prems" have rec: "ProcessCalls_loop env flag s (pos + (?n + 4)) (snd ?r) = (OK, p, c)"
      by simp
    from handled "1.IH" rec
    have IH: "pos + (?n + 4) \<le> p \<and> p \<le> length s
        \<and> whole_frames (drop (pos + (?n + 4)) (take p s))
        \<and> (length s - p < 4 \<or> length s - p < 4 + unat (Load32 (drop p s)))"
      by (simp add: kMsgLengthPrefixLength_def)
    then have l32: "Load32 (drop pos (take p s)) = Load32 (drop pos s)"
      by (intro Load32_drop_take) simp_all
    have "whole_frames (drop pos (take p s))"
      using IH l32
      by (subst whole_frames.simps) (auto simp add: add.commute add.left_commute min_absorb2)
    with IH show ?thesis by simp
  qed
qed

lemma drop_drop_append:
  assumes "k \<le> length xs"
  shows "drop p (drop k xs @ ys) = drop (k + p) (xs @ ys)"
proof -
  have e: "drop k xs @ ys = drop k (xs @ ys)"
    using assms by simp
  show ?thesis
    unfolding e drop_drop by (simp only: add.commute)
qed

lemma feed_loop:
  "ProcessCalls_loop env flag buf 0 conn = (OK, 0, conn) \<Longrightarrow>
   (case feed env flag conn buf chunks of
      (s1, rest, c1) \<Rightarrow>
        (case ProcessCalls_loop env flag (buf @ concat chunks) 0 conn of
           (s2, p, c2) \<Rightarrow> s1 = s2 \<and> c1 = c2 \<and> (ok s2 \<longrightarrow> rest = drop p (buf @ concat chunks))))"
proof (induction chunks arbitrary: conn buf)
  case Nil
  then show ?case by (simp add: ok_def)
next
  case (Cons chunk chunks)
  obtain s k conn' where run: "ProcessCalls_loop env flag (buf @ chunk) 0 conn = (s, k, conn')"
    by (cases "ProcessCalls_loop env flag (buf @ chunk) 0 conn") auto
  have whole: "ProcessCalls_loop env flag (buf @ chunk @ concat chunks) 0 conn
      = (if ok s then ProcessCalls_loop env flag (buf @ chunk @ concat chunks) k conn'
         else (s, k, conn'))"
    using ProcessCalls_loop_append [of env flag "buf @ chunk" "concat chunks" 0 conn] run
    by simp
  show ?case
  proof (cases "ok s")
    case False
    with run whole show ?thesis
      by (simp add: ProcessCalls_def)
  next
    case True
    then have sOK: "s = OK" by (simp add: ok_def)
    from run sOK have bounds: "k \<le> length (buf @ chunk)"
      using ProcessCalls_loop_whole_frames [of 0 "buf @ chunk" env flag conn k conn'] by simp
    let ?buf' = "drop k (buf @ chunk)"
    from run sOK have "ProcessCalls_loop env flag (buf @ chunk) k conn' = (OK, k, conn')"
      by (simp add: ProcessCalls_loop_final)
    with bounds have residual: "ProcessCalls_loop env flag ?buf' 0 conn' = (OK, 0, conn')"
      using ProcessCalls_loop_drop [of k "buf @ chunk" env flag conn']
      by (auto split: prod.splits)
    have shifted: "ProcessCalls_loop env flag (buf @ chunk @ concat chunks) k conn'
        = (case ProcessCalls_loop env flag (?buf' @ concat chunks) 0 conn' of
             (s, p, c) \<Rightarrow> (s, k + p, c))"
      using ProcessCalls_loop_drop [of k "buf @ chunk @ concat chunks" env flag conn'] bounds
      by simp
    obtain s1 rest c1 where f: "feed env flag conn' ?buf' chunks = (s1, rest, c1)"
      by (cases "feed env flag conn' ?buf' chunks") auto
    obtain s2 p c2 where
      l: "ProcessCalls_loop env flag (?buf' @ concat chunks) 0 conn' = (s2, p, c2)"
      by (cases "ProcessCalls_loop env flag (?buf' @ concat chunks) 0 conn'") auto
    from Cons.IH [OF residual] f l
    have eqs: "s1 = s2" "c1 = c2" "ok s2 \<longrightarrow> rest = drop p (?buf' @ concat chunks)"
      by simp_all
    have dd: "drop p (?buf' @ concat chunks) = drop (k + p) ((buf @ chunk) @ concat chunks)"
      using bounds by (rule drop_drop_append)
    have feedc: "feed env flag conn buf (chunk # chunks) = (s1, rest, c1)"
      using run sOK f by (simp add: ProcessCalls_def ok_def)
    have wholec: "ProcessCalls_loop env flag (buf @ concat (chunk # chunks)) 0 conn
        = (s2, k + p, c2)"
      using whole True shifted l by simp
    show ?thesis
      unfolding feedc wholec using eqs dd by simp
  qed
qed

text \<open>
  Claim C3. However a byte stream is cut into chunks, feeding the unconsumed bytes to
  \<open>ProcessCalls\<close> after each chunk ends with the same status and the same connection as
  one call on the whole stream, for every behaviour of the collaborators: the same frame
  bodies have been handed to \<open>HandleCall\<close> in the same order. When the status is \<open>OK\<close>
  the bytes left over are the same too. And the count a successful call stores through
  \<open>consumed\<close> is the length of a prefix of the buffer made of whole frames only; what is
  left is shorter than a length prefix or shorter than the frame its prefix declares.
\<close>

theorem ProcessCalls_chunked:
  "(case feed env flag conn [] chunks of
      (s1, rest, c1) \<Rightarrow>
        (case ProcessCalls env flag conn (concat chunks) 0 of
           (s2, consumed, c2) \<Rightarrow>
             s1 = s2 \<and> c1 = c2 \<and> (ok s2 \<longrightarrow> rest = drop consumed (concat chunks))))
   \<and> (ProcessCalls env flag conn0 s consumed0 = (OK, consumed', conn') \<longrightarrow>
        consumed' \<le> length s \<and> whole_frames (take consumed' s)
        \<and> (length s - consumed' < 4
            \<or> length s - consumed' < 4 + unat (Load32 (drop consumed' s))))"
proof
  have "ProcessCalls_loop env flag [] 0 conn = (OK, 0, conn)"
    by (subst ProcessCalls_loop.simps) (simp add: kMsgLengthPrefixLength_def)
  from feed_loop [OF this, of chunks]
  show "case feed env flag conn [] chunks of
      (s1, rest, c1) \<Rightarrow>
        (case ProcessCalls env flag conn (concat chunks) 0 of
           (s2, consumed, c2) \<Rightarrow>
             s1 = s2 \<and> c1 = c2 \<and> (ok s2 \<longrightarrow> rest = drop consumed (concat chunks)))"
    by (auto simp add: ProcessCalls_def ok_def split: prod.splits)
next
  show "ProcessCalls env flag conn0 s consumed0 = (OK, consumed', conn') \<longrightarrow>
        consumed' \<le> length s \<and> whole_frames (take consumed' s)
        \<and> (length s - consumed' < 4
            \<or> length s - consumed' < 4 + unat (Load32 (drop consumed' s)))"
  proof
    assume a: "ProcessCalls env flag conn0 s consumed0 = (OK, consumed', conn')"
    then have "ProcessCalls_loop env flag s 0 conn0 = (OK, consumed', conn')"
      by (auto simp add: ProcessCalls_def ok_def split: prod.splits if_splits)
    from ProcessCalls_loop_whole_frames [OF _ this]
    show "consumed' \<le> length s \<and> whole_frames (take consumed' s)
        \<and> (length s - consumed' < 4
            \<or> length s - consumed' < 4 + unat (Load32 (drop consumed' s)))"
      by simp
  qed
qed

text \<open>
  Two frames with the bodies \<open>AA BB\<close> and \<open>CC\<close> and five bytes of a third frame, arriving
  in four chunks on a client connection whose response handler records the bodies.
\<close>

lemmas eval_framing =
  ProcessCalls_def ProcessCalls_loop.simps Load32_def kMsgLengthPrefixLength_def
  size_t_of_int32_def HandleCall_def example_env_def example_conn_def Let_def ok_def

lemma example_whole:
  "ProcessCalls example_env 8388608 (example_conn CLIENT) (concat example_stream_chunks) 0
     = (OK, 11, (example_conn CLIENT)\<lparr>tracked := ([], [[0xAA, 0xBB], [0xCC]])\<rparr>)"
  by (simp add: eval_framing example_stream_chunks_def)

lemma example_feed:
  "feed example_env 8388608 (example_conn CLIENT) [] example_stream_chunks
     = (OK, [0, 0, 0, 5, 1], (example_conn CLIENT)\<lparr>tracked := ([], [[0xAA, 0xBB], [0xCC]])\<rparr>)"
  by (simp add: eval_framing example_stream_chunks_def)

theorem ProcessCalls_chunked_witness:
  "feed example_env 8388608 (example_conn CLIENT) [] example_stream_chunks
     = (OK, [0, 0, 0, 5, 1], (example_conn CLIENT)\<lparr>tracked := ([], [[0xAA, 0xBB], [0xCC]])\<rparr>)
   \<and> ProcessCalls example_env 8388608 (example_conn CLIENT) (concat example_stream_chunks) 0
     = (OK, 11, (example_conn CLIENT)\<lparr>tracked := ([], [[0xAA, 0xBB], [0xCC]])\<rparr>)
   \<and> whole_frames (take 11 (concat example_stream_chunks))
   \<and> drop 11 (concat example_stream_chunks) = [0, 0, 0, 5, 1]"
  using ProcessCalls_chunked [where env = example_env and flag = 8388608
      and conn = "example_conn CLIENT" and chunks = example_stream_chunks
      and ?conn0.0 = "example_conn CLIENT" and s = "concat example_stream_chunks"
      and ?consumed0.0 = 0 and consumed' = 11
      and conn' = "(example_conn CLIENT)\<lparr>tracked := ([], [[0xAA, 0xBB], [0xCC]])\<rparr>"]
    example_whole
  by (auto simp add: ok_def) (simp_all add: example_stream_chunks_def)

subsection \<open>The client deadline\<close>

lemma ParseFrom_time_received:
  "time_received (snd (ParseFrom env call source)) = time_received call"
  by (simp add: ParseFrom_def Let_def split: prod.splits option.splits)

lemma ParseFrom_header:
  "header (snd (ParseFrom env call source)) = fst (snd (ParseYBMessage env source))"
  by (simp add: ParseFrom_def Let_def split: prod.splits option.splits)

text \<open>
  Claim C5. \<open>GetClientDeadline\<close> returns the infinite deadline when the header has no timeout
  field or a timeout of zero, and otherwise exactly the arrival timestamp plus the header's
  timeout in milliseconds. The arrival timestamp being an instant of the clock, the deadline
  is infinite only in the first case. Parsing keeps the arrival timestamp and stores the
  header the envelope parser decoded, so the rule applies to the parsed header: a timeout
  \<open>T > 0\<close> in it gives the arrival time plus \<open>T\<close> milliseconds.
\<close>

theorem GetClientDeadline_rule:
  "(hdr_timeout_millis (header call) = None \<or> hdr_timeout_millis (header call) = Some 0
      \<longrightarrow> GetClientDeadline call = MonoTime_Max)
   \<and> (hdr_timeout_millis (header call) = Some T \<and> T \<noteq> 0
      \<longrightarrow> GetClientDeadline call
            = MonoTime_AddDelta (time_received call) (MonoDelta_FromMilliseconds (uint T)))
   \<and> (time_received call = MonoTime_At arrival
      \<longrightarrow> (GetClientDeadline call = MonoTime_Max
             \<longleftrightarrow> hdr_timeout_millis (header call) = None
                 \<or> hdr_timeout_millis (header call) = Some 0)
          \<and> (hdr_timeout_millis (header call) = Some T \<and> T \<noteq> 0
             \<longrightarrow> GetClientDeadline call = MonoTime_At (arrival + uint T * 1000)))
   \<and> (ParseFrom env call0 source = (OK, call)
      \<longrightarrow> time_received call = time_received call0
          \<and> header call = fst (snd (ParseYBMessage env source)))"
proof -
  have parsed: "ParseFrom env call0 source = (OK, call)
      \<longrightarrow> time_received call = time_received call0
          \<and> header call = fst (snd (ParseYBMessage env source))"
    using ParseFrom_time_received [of env call0 source] ParseFrom_header [of env call0 source]
    by auto
  show ?thesis
    using parsed
    by (auto simp add: GetClientDeadline_def has_timeout_millis_def get_timeout_millis_def
        MonoDelta_FromMilliseconds_def split: option.splits)
qed

lemmas eval_parse =
  ParseFrom_def example_env_def example_ParseYBMessage_def YBInboundCall_new_def Let_def ok_def
  has_remote_method_def get_remote_method_def RemoteMethodPB_IsInitialized_def
  RemoteMethod_FromPB_def

lemma example_parse:
  "ParseFrom example_env (YBInboundCall_new (MonoTime_At 5000)) [7, 2, 30, 1, 2, 3]
     = (OK, \<lparr>header = \<lparr>hdr_call_id = 7,
                hdr_remote_method = Some \<lparr>pb_service_name = Some ''svc'', pb_method_name = Some ''get''\<rparr>,
                hdr_timeout_millis = Some 30\<rparr>,
             request_data = [7, 2, 30, 1, 2, 3], serialized_request = [1, 2, 3],
             remote_method = \<lparr>service_name = ''svc'', method_name = ''get''\<rparr>,
             sidecars = [], response_buf = [], time_received = MonoTime_At 5000\<rparr>)"
  by (simp add: eval_parse)

text \<open>
  A call that arrived at 5000 microseconds with a timeout of 30 ms has the deadline 35000; with
  no timeout field, or with a timeout of zero, the deadline is infinite.
\<close>

theorem GetClientDeadline_rule_witness:
  "GetClientDeadline (snd (ParseFrom example_env (YBInboundCall_new (MonoTime_At 5000))
       [7, 2, 30, 1, 2, 3])) = MonoTime_At 35000
   \<and> GetClientDeadline (YBInboundCall_new (MonoTime_At 5000)) = MonoTime_Max
   \<and> GetClientDeadline ((YBInboundCall_new (MonoTime_At 5000))
        \<lparr>header := RequestHeader_default\<lparr>hdr_timeout_millis := Some 0\<rparr>\<rparr>) = MonoTime_Max"
proof -
  let ?c = "snd (ParseFrom example_env (YBInboundCall_new (MonoTime_At 5000)) [7, 2, 30, 1, 2, 3])"
  let ?d = "YBInboundCall_new (MonoTime_At 5000)"
  let ?e = "(YBInboundCall_new (MonoTime_At 5000))
        \<lparr>header := RequestHeader_default\<lparr>hdr_timeout_millis := Some 0\<rparr>\<rparr>"
  have "hdr_timeout_millis (header ?c) = Some 30" "time_received ?c = MonoTime_At 5000"
    by (simp_all add: example_parse)
  with GetClientDeadline_rule [where call = ?c and T = 30 and arrival = 5000
      and env = example_env and ?call0.0 = ?d and source = "[7, 2, 30, 1, 2, 3]"]
  have c: "GetClientDeadline ?c = MonoTime_At 35000"
    by (simp add: MonoDelta_FromMilliseconds_def)
  have "hdr_timeout_millis (header ?d) = None"
    by (simp add: YBInboundCall_new_def RequestHeader_default_def)
  with GetClientDeadline_rule [where call = ?d and T = 0 and arrival = 5000
      and env = example_env and ?call0.0 = ?d and source = "[]"]
  have d: "GetClientDeadline ?d = MonoTime_Max"
    by simp
  have "hdr_timeout_millis (header ?e) = Some 0"
    by simp
  with GetClientDeadline_rule [where call = ?e and T = 0 and arrival = 5000
      and env = example_env and ?call0.0 = ?d and source = "[]"]
  have e: "GetClientDeadline ?e = MonoTime_Max"
    by simp
  from c d e show ?thesis
    by simp
qed

subsection \<open>Parsing and dispatching inbound calls\<close>

lemma ParseFrom_cases:
  "fst (ParseFrom env call source) =
     (let s = fst (ParseYBMessage env source);
          hdr = fst (snd (ParseYBMessage env source))
      in if \<not> ok s then s
         else case hdr_remote_method hdr of
                None \<Rightarrow> no_remote_method
              | Some rm \<Rightarrow>
                  if \<not> RemoteMethodPB_IsInitialized rm
                  then STATUS2 Corruption ''remote_method in request header is not initialized''
                         (RemoteMethodPB_InitializationErrorString rm)
                  else OK)"
  by (simp add: ParseFrom_def Let_def has_remote_method_def get_remote_method_def
      split: prod.splits option.splits)

lemma ParseFrom_remote_method:
  "fst (ParseFrom env call source) = OK \<Longrightarrow>
   \<exists>rm. hdr_remote_method (fst (snd (ParseYBMessage env source))) = Some rm
     \<and> RemoteMethodPB_IsInitialized rm
     \<and> remote_method (snd (ParseFrom env call source)) = RemoteMethod_FromPB rm"
  by (auto simp add: ParseFrom_def Let_def has_remote_method_def get_remote_method_def ok_def
      no_remote_method_def STATUS_def STATUS2_def split: prod.splits option.splits if_splits)

lemma HandleInboundCall_parse_failed:
  assumes "\<not> ok (fst (ParseFrom env (YBInboundCall_new (Now env (tracked conn))) call_data))"
  shows "HandleInboundCall env conn call_data
     = (fst (ParseFrom env (YBInboundCall_new (Now env (tracked conn))) call_data), conn)"
  using assms by (auto simp add: HandleInboundCall_def Let_def split: prod.splits)

lemma ProcessCalls_loop_first_frame_failed:
  assumes "length prefix = 4" and "unat (Load32 prefix) = length body"
    and "length body + 4 \<le> size_t_of_int32 flag"
    and "\<not> ok (fst (HandleCall env conn body))"
  shows "ProcessCalls_loop env flag (prefix @ body @ rest) 0 conn
     = (fst (HandleCall env conn body), 4, snd (HandleCall env conn body))"
  using assms
  by (subst ProcessCalls_loop.simps)
    (simp add: kMsgLengthPrefixLength_def Let_def Load32_append)

text \<open>
  Claim C6. With an envelope parser that reports its failures as corruption, \<open>ParseFrom\<close>
  fails with a corruption error exactly when the envelope fails to decode, when the header
  has no remote method, or when the remote method is not initialized; otherwise it succeeds
  and the call holds the service and method names of the header. For a well-formed envelope
  without a remote method on a server connection, the error comes back unchanged from
  \<open>HandleInboundCall\<close>, from \<open>HandleCall\<close> and, for a buffer that starts with this frame,
  from \<open>ProcessCalls\<close>; the connection is as it was, so nothing has been queued in either
  direction. The loop of \<open>ProcessCalls\<close> ends with this error at whatever offset it meets
  the frame.
\<close>

theorem ParseFrom_corruption:
  assumes "parser_contract env"
  shows
    "(is_corruption (fst (ParseFrom env call source)) \<longleftrightarrow>
        (\<not> ok (fst (ParseYBMessage env source))
         \<or> hdr_remote_method (fst (snd (ParseYBMessage env source))) = None
         \<or> (\<exists>rm. hdr_remote_method (fst (snd (ParseYBMessage env source))) = Some rm
                \<and> \<not> RemoteMethodPB_IsInitialized rm)))
     \<and> (\<not> is_corruption (fst (ParseFrom env call source)) \<longrightarrow>
          fst (ParseFrom env call source) = OK
          \<and> (\<exists>sn mn. hdr_remote_method (fst (snd (ParseYBMessage env source)))
                        = Some \<lparr>pb_service_name = Some sn, pb_method_name = Some mn\<rparr>
                \<and> remote_method (snd (ParseFrom env call source))
                        = \<lparr>service_name = sn, method_name = mn\<rparr>))
     \<and> (ok (fst (ParseYBMessage env source))
          \<and> hdr_remote_method (fst (snd (ParseYBMessage env source))) = None
          \<and> direction conn = SERVER \<longrightarrow>
          HandleInboundCall env conn source = (no_remote_method, conn)
          \<and> HandleCall env conn source = (no_remote_method, conn)
          \<and> is_corruption no_remote_method
          \<and> (length prefix = 4 \<and> unat (Load32 prefix) = length source
               \<and> length source + 4 \<le> BufferLimit flag \<longrightarrow>
               ProcessCalls env flag conn (prefix @ source @ rest) consumed
                 = (no_remote_method, consumed, conn)
               \<and> ProcessCalls_loop env flag (before @ prefix @ source @ rest) (length before) conn
                 = (no_remote_method, length before + 4, conn)))"
proof (intro conjI)
  have contract: "ok (fst (ParseYBMessage env source)) \<or> is_corruption (fst (ParseYBMessage env source))"
  proof (cases "ParseYBMessage env source")
    case (fields s hdr payload)
    from assms have "case ParseYBMessage env source of (s, hdr, payload) \<Rightarrow> ok s \<or> is_corruption s"
      unfolding parser_contract_def by (rule spec)
    with fields show ?thesis by simp
  qed
  show "is_corruption (fst (ParseFrom env call source)) \<longleftrightarrow>
        (\<not> ok (fst (ParseYBMessage env source))
         \<or> hdr_remote_method (fst (snd (ParseYBMessage env source))) = None
         \<or> (\<exists>rm. hdr_remote_method (fst (snd (ParseYBMessage env source))) = Some rm
                \<and> \<not> RemoteMethodPB_IsInitialized rm))"
    using contract
    by (auto simp add: ParseFrom_cases Let_def is_corruption_def no_remote_method_def STATUS_def
        STATUS2_def ok_def split: option.splits)
  show "\<not> is_corruption (fst (ParseFrom env call source)) \<longrightarrow>
          fst (ParseFrom env call source) = OK
          \<and> (\<exists>sn mn. hdr_remote_method (fst (snd (ParseYBMessage env source)))
                        = Some \<lparr>pb_service_name = Some sn, pb_method_name = Some mn\<rparr>
                \<and> remote_method (snd (ParseFrom env call source))
                        = \<lparr>service_name = sn, method_name = mn\<rparr>)"
  proof
    assume nc: "\<not> is_corruption (fst (ParseFrom env call source))"
    with contract have isok: "fst (ParseFrom env call source) = OK"
      by (auto simp add: ParseFrom_cases Let_def is_corruption_def no_remote_method_def
          STATUS_def STATUS2_def ok_def split: option.splits if_splits)
    from ParseFrom_remote_method [OF isok] obtain rm where
      rm: "hdr_remote_method (fst (snd (ParseYBMessage env source))) = Some rm"
        "RemoteMethodPB_IsInitialized rm"
        "remote_method (snd (ParseFrom env call source)) = RemoteMethod_FromPB rm"
      by blast
    from rm(2) obtain sn mn where "pb_service_name rm = Some sn" "pb_method_name rm = Some mn"
      by (auto simp add: RemoteMethodPB_IsInitialized_def)
    then have "rm = \<lparr>pb_service_name = Some sn, pb_method_name = Some mn\<rparr>"
        "RemoteMethod_FromPB rm = \<lparr>service_name = sn, method_name = mn\<rparr>"
      by (simp_all add: RemoteMethod_FromPB_def)
    with rm isok show "fst (ParseFrom env call source) = OK
          \<and> (\<exists>sn mn. hdr_remote_method (fst (snd (ParseYBMessage env source)))
                        = Some \<lparr>pb_service_name = Some sn, pb_method_name = Some mn\<rparr>
                \<and> remote_method (snd (ParseFrom env call source))
                        = \<lparr>service_name = sn, method_name = mn\<rparr>)"
      by auto
  qed
  show "ok (fst (ParseYBMessage env source))
          \<and> hdr_remote_method (fst (snd (ParseYBMessage env source))) = None
          \<and> direction conn = SERVER \<longrightarrow>
          HandleInboundCall env conn source = (no_remote_method, conn)
          \<and> HandleCall env conn source = (no_remote_method, conn)
          \<and> is_corruption no_remote_method
          \<and> (length prefix = 4 \<and> unat (Load32 prefix) = length source
               \<and> length source + 4 \<le> BufferLimit flag \<longrightarrow>
               ProcessCalls env flag conn (prefix @ source @ rest) consumed
                 = (no_remote_method, consumed, conn)
               \<and> ProcessCalls_loop env flag (before @ prefix @ source @ rest) (length before) conn
                 = (no_remote_method, length before + 4, conn))"
  proof (intro impI, elim conjE)
    assume a: "ok (fst (ParseYBMessage env source))"
      "hdr_remote_method (fst (snd (ParseYBMessage env source))) = None"
      "direction conn = SERVER"
    have nok: "\<not> ok no_remote_method" "is_corruption no_remote_method"
      by (simp_all add: no_remote_method_def STATUS_def ok_def is_corruption_def)
    from a have "fst (ParseFrom env (YBInboundCall_new (Now env (tracked conn))) source)
        = no_remote_method"
      by (simp add: ParseFrom_cases Let_def)
    with nok HandleInboundCall_parse_failed [of env conn source]
    have hic: "HandleInboundCall env conn source = (no_remote_method, conn)"
      by simp
    with a have hc: "HandleCall env conn source = (no_remote_method, conn)"
      by (simp add: HandleCall_def)
    have "ProcessCalls env flag conn (prefix @ source @ rest) consumed
                 = (no_remote_method, consumed, conn)
          \<and> ProcessCalls_loop env flag (before @ prefix @ source @ rest) (length before) conn
                 = (no_remote_method, length before + 4, conn)"
      if "length prefix = 4" "unat (Load32 prefix) = length source"
        "length source + 4 \<le> BufferLimit flag"
    proof -
      from ProcessCalls_loop_first_frame_failed [of prefix source flag env conn rest] that hc nok
      have first: "ProcessCalls_loop env flag (prefix @ source @ rest) 0 conn
          = (no_remote_method, 4, conn)"
        by (simp add: BufferLimit_def)
      from ProcessCalls_loop_shift [of env flag before "prefix @ source @ rest" 0 conn] first
      have "ProcessCalls_loop env flag (before @ prefix @ source @ rest) (length before) conn
          = (no_remote_method, length before + 4, conn)"
        by simp
      with first nok show ?thesis
        by (simp add: ProcessCalls_def)
    qed
    with hic hc nok show "HandleInboundCall env conn source = (no_remote_method, conn)
          \<and> HandleCall env conn source = (no_remote_method, conn)
          \<and> is_corruption no_remote_method
          \<and> (length prefix = 4 \<and> unat (Load32 prefix) = length source
               \<and> length source + 4 \<le> BufferLimit flag \<longrightarrow>
               ProcessCalls env flag conn (prefix @ source @ rest) consumed
                 = (no_remote_method, consumed, conn)
               \<and> ProcessCalls_loop env flag (before @ prefix @ source @ rest) (length before) conn
                 = (no_remote_method, length before + 4, conn))"
      by simp
  qed
qed

lemma example_parser_contract: "parser_contract example_env"
  by (auto simp add: parser_contract_def example_env_def example_ParseYBMessage_def STATUS_def
      ok_def is_corruption_def split: list.splits)

theorem ParseFrom_corruption_witness:
  "is_corruption (fst (ParseFrom example_env (YBInboundCall_new (MonoTime_At 5000)) [7]))
   \<and> is_corruption (fst (ParseFrom example_env (YBInboundCall_new (MonoTime_At 5000)) [7, 0, 0]))
   \<and> is_corruption (fst (ParseFrom example_env (YBInboundCall_new (MonoTime_At 5000)) [7, 1, 0]))
   \<and> fst (ParseFrom example_env (YBInboundCall_new (MonoTime_At 5000)) [7, 2, 30, 1, 2, 3]) = OK
   \<and> remote_method (snd (ParseFrom example_env (YBInboundCall_new (MonoTime_At 5000))
        [7, 2, 30, 1, 2, 3])) = \<lparr>service_name = ''svc'', method_name = ''get''\<rparr>
   \<and> ProcessCalls example_env 8388608 (example_conn SERVER) ([0, 0, 0, 3] @ [7, 0, 0] @ [9, 9]) 0
       = (no_remote_method, 0, example_conn SERVER)"
proof -
  let ?c = "YBInboundCall_new (MonoTime_At 5000)"
  note inst = ParseFrom_corruption [OF example_parser_contract]
  have p1: "\<not> ok (fst (ParseYBMessage example_env [7]))"
    by (simp add: example_env_def example_ParseYBMessage_def STATUS_def ok_def)
  have p2: "ok (fst (ParseYBMessage example_env [7, 0, 0]))"
    "hdr_remote_method (fst (snd (ParseYBMessage example_env [7, 0, 0]))) = None"
    by (simp_all add: example_env_def example_ParseYBMessage_def ok_def)
  have p3: "hdr_remote_method (fst (snd (ParseYBMessage example_env [7, 1, 0])))
      = Some \<lparr>pb_service_name = Some ''svc'', pb_method_name = None\<rparr>"
    "\<not> RemoteMethodPB_IsInitialized \<lparr>pb_service_name = Some ''svc'', pb_method_name = None\<rparr>"
    by (simp_all add: example_env_def example_ParseYBMessage_def RemoteMethodPB_IsInitialized_def)
  have p4: "ok (fst (ParseYBMessage example_env [7, 2, 30, 1, 2, 3]))"
    "hdr_remote_method (fst (snd (ParseYBMessage example_env [7, 2, 30, 1, 2, 3])))
      = Some \<lparr>pb_service_name = Some ''svc'', pb_method_name = Some ''get''\<rparr>"
    "RemoteMethodPB_IsInitialized \<lparr>pb_service_name = Some ''svc'', pb_method_name = Some ''get''\<rparr>"
    by (simp_all add: example_env_def example_ParseYBMessage_def ok_def
        RemoteMethodPB_IsInitialized_def)
  have c1: "is_corruption (fst (ParseFrom example_env ?c [7]))"
    using inst [where call = ?c and source = "[7]" and conn = "example_conn SERVER"
        and prefix = "[]" and flag = 0 and rest = "[]" and consumed = 0 and before = "[]"] p1
    by blast
  have c2: "is_corruption (fst (ParseFrom example_env ?c [7, 0, 0]))"
    using inst [where call = ?c and source = "[7, 0, 0]" and conn = "example_conn SERVER"
        and prefix = "[]" and flag = 0 and rest = "[]" and consumed = 0 and before = "[]"] p2
    by blast
  have c3: "is_corruption (fst (ParseFrom example_env ?c [7, 1, 0]))"
    using inst [where call = ?c and source = "[7, 1, 0]" and conn = "example_conn SERVER"
        and prefix = "[]" and flag = 0 and rest = "[]" and consumed = 0 and before = "[]"] p3
    by blast
  have c4: "fst (ParseFrom example_env ?c [7, 2, 30, 1, 2, 3]) = OK
      \<and> remote_method (snd (ParseFrom example_env ?c [7, 2, 30, 1, 2, 3]))
          = \<lparr>service_name = ''svc'', method_name = ''get''\<rparr>"
    using inst [where call = ?c and source = "[7, 2, 30, 1, 2, 3]"
        and conn = "example_conn SERVER"
        and prefix = "[]" and flag = 0 and rest = "[]" and consumed = 0 and before = "[]"] p4
    by auto
  have c5: "ProcessCalls example_env 8388608 (example_conn SERVER)
        ([0, 0, 0, 3] @ [7, 0, 0] @ [9, 9]) 0 = (no_remote_method, 0, example_conn SERVER)"
    using inst [where call = ?c and source = "[7, 0, 0]" and conn = "example_conn SERVER"
        and prefix = "[0, 0, 0, 3]" and flag = 8388608 and rest = "[9, 9]" and consumed = 0
        and before = "[]"] p2
    by (simp add: example_conn_def Load32_def BufferLimit_def size_t_of_int32_def)
  from c1 c2 c3 c4 c5 show ?thesis
    by blast
qed

text \<open>
  Claim C10. When \<open>ParseFrom\<close> fails, \<open>HandleInboundCall\<close> returns its status and leaves
  the connection as it was, whatever \<open>Store\<close> would do: the call is neither registered nor
  queued. When \<open>Store\<close> fails, its status is returned and the call is not queued. So if
  the messenger's queue has changed, the call was parsed and registered with success, and it
  is the call appended to the queue.
\<close>

theorem HandleInboundCall_dispatch:
  "(ParseFrom env (YBInboundCall_new (Now env (tracked conn))) call_data = (s, call)
      \<and> \<not> ok s \<longrightarrow>
      (\<forall>store. HandleInboundCall (env\<lparr>Store := store\<rparr>) conn call_data = (s, conn)))
   \<and> (ParseFrom env (YBInboundCall_new (Now env (tracked conn))) call_data = (s, call)
      \<and> ok s \<and> Store env (tracked conn) call = (s', t') \<and> \<not> ok s' \<longrightarrow>
      HandleInboundCall env conn call_data = (s', conn\<lparr>tracked := t'\<rparr>)
      \<and> inbound_queue (snd (HandleInboundCall env conn call_data)) = inbound_queue conn)
   \<and> (inbound_queue (snd (HandleInboundCall env conn call_data)) \<noteq> inbound_queue conn \<longrightarrow>
      (\<exists>call t'. ParseFrom env (YBInboundCall_new (Now env (tracked conn))) call_data = (OK, call)
         \<and> Store env (tracked conn) call = (OK, t')
         \<and> HandleInboundCall env conn call_data
             = (OK, conn\<lparr>tracked := t', inbound_queue := inbound_queue conn @ [call]\<rparr>)))"
proof (intro conjI)
  show "ParseFrom env (YBInboundCall_new (Now env (tracked conn))) call_data = (s, call)
      \<and> \<not> ok s \<longrightarrow>
      (\<forall>store. HandleInboundCall (env\<lparr>Store := store\<rparr>) conn call_data = (s, conn))"
    by (simp add: HandleInboundCall_def ParseFrom_def Let_def split: prod.splits)
  show "ParseFrom env (YBInboundCall_new (Now env (tracked conn))) call_data = (s, call)
      \<and> ok s \<and> Store env (tracked conn) call = (s', t') \<and> \<not> ok s' \<longrightarrow>
      HandleInboundCall env conn call_data = (s', conn\<lparr>tracked := t'\<rparr>)
      \<and> inbound_queue (snd (HandleInboundCall env conn call_data)) = inbound_queue conn"
    by (simp add: HandleInboundCall_def Let_def)
  show "inbound_queue (snd (HandleInboundCall env conn call_data)) \<noteq> inbound_queue conn \<longrightarrow>
      (\<exists>call t'. ParseFrom env (YBInboundCall_new (Now env (tracked conn))) call_data = (OK, call)
         \<and> Store env (tracked conn) call = (OK, t')
         \<and> HandleInboundCall env conn call_data
             = (OK, conn\<lparr>tracked := t', inbound_queue := inbound_queue conn @ [call]\<rparr>))"
    by (auto simp add: HandleInboundCall_def Let_def QueueInboundCall_def ok_def
        split: prod.splits if_splits)
qed

lemma example_Store_update: "example_env\<lparr>Store := example_Store\<rparr> = example_env"
  by (simp add: example_env_def)

text \<open>
  A frame without a remote method is returned as it is; a frame whose call id is already
  being handled fails in \<open>Store\<close> and is not queued; a good frame is registered and queued.
\<close>

theorem HandleInboundCall_dispatch_witness:
  "HandleInboundCall example_env (example_conn SERVER) [7, 0, 0]
     = (no_remote_method, example_conn SERVER)
   \<and> HandleInboundCall example_env ((example_conn SERVER)\<lparr>tracked := ([7], [])\<rparr>) [7, 2, 0]
     = (STATUS NetworkError ''Received a call ID that is already being processed'',
        (example_conn SERVER)\<lparr>tracked := ([7], [])\<rparr>)
   \<and> HandleInboundCall example_env (example_conn SERVER) [7, 2, 30, 1, 2, 3]
     = (OK, (example_conn SERVER)
          \<lparr>tracked := ([7], []),
           inbound_queue := [snd (ParseFrom example_env (YBInboundCall_new (MonoTime_At 5000))
                                   [7, 2, 30, 1, 2, 3])]\<rparr>)"
proof -
  let ?new = "YBInboundCall_new (MonoTime_At 5000)"
  let ?dup = "(example_conn SERVER)\<lparr>tracked := ([7], [])\<rparr>"
  have now: "Now example_env (tracked (example_conn SERVER)) = MonoTime_At 5000"
    "Now example_env (tracked ?dup) = MonoTime_At 5000"
    by (simp_all add: example_env_def)
  have p1: "ParseFrom example_env ?new [7, 0, 0]
      = (no_remote_method, snd (ParseFrom example_env ?new [7, 0, 0]))"
    "\<not> ok no_remote_method"
    by (simp_all add: eval_parse no_remote_method_def STATUS_def)
  from HandleInboundCall_dispatch [where env = example_env and conn = "example_conn SERVER"
      and call_data = "[7, 0, 0]" and s = no_remote_method
      and call = "snd (ParseFrom example_env ?new [7, 0, 0])" and s' = OK and t' = "([], [])"]
    p1 now
  have "\<forall>store. HandleInboundCall (example_env\<lparr>Store := store\<rparr>) (example_conn SERVER) [7, 0, 0]
      = (no_remote_method, example_conn SERVER)"
    by simp
  then have "HandleInboundCall (example_env\<lparr>Store := example_Store\<rparr>) (example_conn SERVER)
      [7, 0, 0] = (no_remote_method, example_conn SERVER)"
    by (rule spec)
  then have w1: "HandleInboundCall example_env (example_conn SERVER) [7, 0, 0]
      = (no_remote_method, example_conn SERVER)"
    by (simp only: example_Store_update)
  let ?call2 = "snd (ParseFrom example_env ?new [7, 2, 0])"
  have p2: "ParseFrom example_env ?new [7, 2, 0] = (OK, ?call2)"
    "Store example_env (tracked ?dup) ?call2
       = (STATUS NetworkError ''Received a call ID that is already being processed'', ([7], []))"
    by (simp_all add: eval_parse example_Store_def)
  from HandleInboundCall_dispatch [where env = example_env and conn = ?dup
      and call_data = "[7, 2, 0]" and s = OK and call = ?call2
      and s' = "STATUS NetworkError ''Received a call ID that is already being processed''"
      and t' = "([7], [])"]
    p2 now
  have w2: "HandleInboundCall example_env ?dup [7, 2, 0]
      = (STATUS NetworkError ''Received a call ID that is already being processed'', ?dup)"
    by (simp add: ok_def STATUS_def)
  have w3: "HandleInboundCall example_env (example_conn SERVER) [7, 2, 30, 1, 2, 3]
     = (OK, (example_conn SERVER)
          \<lparr>tracked := ([7], []),
           inbound_queue := [snd (ParseFrom example_env ?new [7, 2, 30, 1, 2, 3])]\<rparr>)"
    by (simp add: HandleInboundCall_def QueueInboundCall_def eval_parse example_Store_def
        example_conn_def)
  from w1 w2 w3 show ?thesis
    by simp
qed

subsection \<open>The response header and the outbound bytes\<close>

lemma add_sidecar_offsets_eq:
  "add_sidecar_offsets cars (hdr, off) =
     (hdr\<lparr>sidecar_offsets := sidecar_offsets hdr
            @ map (\<lambda>i. off + word_of_nat (sum_list (map length (take i cars)))) [0..<length cars]\<rparr>,
      off + word_of_nat (sum_list (map length cars)))"
proof (induction cars arbitrary: hdr off)
  case Nil
  then show ?case by simp
next
  case (Cons car cars)
  show ?case
    by (simp add: Cons.IH map_upt_Suc add.assoc del: upt_Suc)
qed

lemma sum_take_le: "sum_list (map length (take i xs)) \<le> sum_list (map length xs)"
proof -
  have "sum_list (map length xs)
      = sum_list (map length (take i xs)) + sum_list (map length (drop i xs))"
    by (metis append_take_drop_id map_append sum_list_append)
  then show ?thesis by simp
qed

lemma unat_offset:
  assumes "unat (p :: 32 word) + k < 2 ^ 32"
  shows "unat (p + word_of_nat k) = unat p + k"
proof -
  have "unat (p + word_of_nat k) = (unat p + unat (word_of_nat k :: 32 word)) mod 2 ^ 32"
    by (simp add: unat_word_ariths)
  also have "unat (word_of_nat k :: 32 word) = k"
    using assms by (simp add: unat_of_nat)
  finally show ?thesis
    using assms by simp
qed

lemma build_resp_hdr_fields:
  "resp_call_id (fst (build_resp_hdr call p is_success)) = hdr_call_id (header call)"
  "is_error (fst (build_resp_hdr call p is_success)) = (\<not> is_success)"
  "sidecar_offsets (fst (build_resp_hdr call p is_success))
     = map (\<lambda>i. p + word_of_nat (sum_list (map length (take i (sidecars call)))))
         [0..<length (sidecars call)]"
  by (simp_all add: build_resp_hdr_def add_sidecar_offsets_eq)

lemma Serialize_output:
  "Serialize call output =
     (if response_buf call = [] then None else Some (output @ response_buf call # sidecars call))"
proof -
  have "foldl (\<lambda>out car. out @ [car]) acc cars = acc @ cars" for acc cars :: "bytes list"
    by (induction cars arbitrary: acc) simp_all
  then show ?thesis
    by (simp add: Serialize_def)
qed

lemma build_resp_hdr_offset:
  "snd (build_resp_hdr call p is_success) = p + word_of_nat (sum_list (map length (sidecars call)))"
  by (simp add: build_resp_hdr_def add_sidecar_offsets_eq)

lemma response_header_fields:
  "resp_call_id (response_header env call response is_success) = hdr_call_id (header call)"
  "is_error (response_header env call response is_success) = (\<not> is_success)"
  "sidecar_offsets (response_header env call response is_success)
     = map (\<lambda>i. word_of_int (ByteSize env response)
                  + word_of_nat (sum_list (map length (take i (sidecars call)))))
         [0..<length (sidecars call)]"
  by (simp_all add: response_header_def build_resp_hdr_fields)

lemma take_butlast_eq: "i < length xs \<Longrightarrow> take i xs = take i (butlast xs)"
  by (auto simp add: butlast_conv_take min_def)

text \<open>The offsets are exact as long as the last of them fits into 32 bits, and only then.\<close>

lemma offsets_exact_iff:
  fixes p :: "32 word"
  shows "(map (\<lambda>i. unat (p + word_of_nat (sum_list (map length (take i cars))))) [0..<length cars]
          = map (\<lambda>i. unat p + sum_list (map length (take i cars))) [0..<length cars])
         \<longleftrightarrow> unat p + sum_list (map length (butlast cars)) < 2 ^ 32"
proof
  assume bound: "unat p + sum_list (map length (butlast cars)) < 2 ^ 32"
  have "unat (p + word_of_nat (sum_list (map length (take i cars))))
      = unat p + sum_list (map length (take i cars))" if "i < length cars" for i
  proof -
    have "sum_list (map length (take i cars)) \<le> sum_list (map length (butlast cars))"
      using sum_take_le [of i "butlast cars"] take_butlast_eq [OF that] by simp
    with bound show ?thesis
      by (intro unat_offset) simp
  qed
  then show "map (\<lambda>i. unat (p + word_of_nat (sum_list (map length (take i cars))))) [0..<length cars]
          = map (\<lambda>i. unat p + sum_list (map length (take i cars))) [0..<length cars]"
    by simp
next
  assume eq: "map (\<lambda>i. unat (p + word_of_nat (sum_list (map length (take i cars))))) [0..<length cars]
          = map (\<lambda>i. unat p + sum_list (map length (take i cars))) [0..<length cars]"
  show "unat p + sum_list (map length (butlast cars)) < 2 ^ 32"
  proof (cases "cars = []")
    case True
    then show ?thesis
      using unsigned_less [of p, where 'a = nat] by simp
  next
    case False
    then have last: "length cars - 1 < length cars"
      by simp
    from eq have "\<forall>i \<in> set [0..<length cars].
        unat (p + word_of_nat (sum_list (map length (take i cars))))
          = unat p + sum_list (map length (take i cars))"
      by (simp only: map_eq_conv)
    with last have "unat (p + word_of_nat (sum_list (map length (take (length cars - 1) cars))))
        = unat p + sum_list (map length (take (length cars - 1) cars))"
      by simp
    moreover have "take (length cars - 1) cars = butlast cars"
      by (simp add: butlast_conv_take)
    ultimately have "unat (p + word_of_nat (sum_list (map length (butlast cars))))
        = unat p + sum_list (map length (butlast cars))"
      by simp
    moreover have "unat (p + word_of_nat (sum_list (map length (butlast cars)))) < 2 ^ 32"
      using unsigned_less [of "p + word_of_nat (sum_list (map length (butlast cars)))",
          where 'a = nat] by simp
    ultimately show ?thesis
      by simp
  qed
qed

lemma SerializeResponseBuffer_calls:
  assumes "SerializeResponseBuffer env call response is_success = (OK, call')"
  shows "\<exists>unused message_size buf1 header_size unused_size.
      SerializeMessage env response None
          (word_of_nat (sum_list (map length (sidecars call)))) True 0
        = (OK, unused, message_size)
      \<and> SerializeHeader env (response_header env call response is_success)
          (size_t_plus_int message_size (word_of_nat (sum_list (map length (sidecars call)))))
          (response_buf call) message_size = (OK, buf1, header_size)
      \<and> SerializeMessage env response (Some buf1)
          (word_of_nat (sum_list (map length (sidecars call)))) True header_size
        = (OK, response_buf call', unused_size)
      \<and> sidecars call' = sidecars call"
proof -
  let ?p = "word_of_int (ByteSize env response) :: 32 word"
  let ?add = "word_of_nat (sum_list (map length (sidecars call))) :: 32 word"
  obtain resp_hdr off where b: "build_resp_hdr call ?p is_success = (resp_hdr, off)"
    by (cases "build_resp_hdr call ?p is_success") auto
  then have hdr: "resp_hdr = response_header env call response is_success"
    and off: "off - ?p = ?add"
    using build_resp_hdr_offset [of call ?p is_success]
    by (simp_all add: response_header_def)
  obtain s1 unused message_size where m1:
    "SerializeMessage env response None ?add True 0 = (s1, unused, message_size)"
    by (metis prod_cases3)
  obtain s2 buf1 header_size where h:
    "SerializeHeader env resp_hdr (size_t_plus_int message_size ?add)
       (response_buf call) message_size = (s2, buf1, header_size)"
    by (metis prod_cases3)
  obtain s3 buf3 unused_size where m2:
    "SerializeMessage env response (Some buf1) ?add True header_size = (s3, buf3, unused_size)"
    by (metis prod_cases3)
  from assms b off m1 h m2
  have "s1 = OK \<and> s2 = OK \<and> s3 = OK \<and> call' = call\<lparr>response_buf := buf3\<rparr>"
    by (auto simp add: SerializeResponseBuffer_def Let_def ok_def split: if_splits)
  with hdr m1 h m2 show ?thesis
    by simp
qed

text \<open>
  Claim C1, amended. For every response that \<open>SerializeResponseBuffer\<close> serializes with
  success, the response header it builds echoes the call id of the request and has the error
  flag set exactly when the responder was not the success responder. Its sidecar offsets are
  32-bit values: they are exactly payload size, payload size + s0, payload size + s0 + s1, ...
  if and only if the last of these sums, the payload size plus all sidecars but the last, is
  below \<open>2 ^ 32\<close>. \<open>Serialize\<close> appends the response buffer and then the sidecars in order,
  so the outbound bytes number the size of the response buffer plus the sum of the sidecar
  sizes. The response buffer is what the header serializer and the payload serializer
  return, the header serializer having been asked to reserve \<open>message_size\<close> bytes, the size
  the payload serializer reported for the payload; when that buffer holds the header and
  the reserved bytes, the outbound bytes number header size + \<open>message_size\<close> + the sum of
  the sidecar sizes.
\<close>

theorem SerializeResponseBuffer_layout:
  assumes "SerializeResponseBuffer env call response is_success = (OK, call')"
  shows
    "resp_call_id (response_header env call response is_success) = hdr_call_id (header call)
     \<and> (is_error (response_header env call response is_success) \<longleftrightarrow> \<not> is_success)
     \<and> (map unat (sidecar_offsets (response_header env call response is_success))
           = map (\<lambda>i. payload_size env response + sum_list (map length (take i (sidecars call))))
               [0..<length (sidecars call)]
         \<longleftrightarrow> payload_size env response + sum_list (map length (butlast (sidecars call)))
               < 2 ^ 32)
     \<and> Serialize call' out
           = (if response_buf call' = [] then None
              else Some (out @ response_buf call' # sidecars call))
     \<and> sum_list (map length (response_buf call' # sidecars call))
           = length (response_buf call') + sum_list (map length (sidecars call))
     \<and> (\<exists>unused message_size buf1 header_size unused_size.
           SerializeMessage env response None
               (word_of_nat (sum_list (map length (sidecars call)))) True 0
             = (OK, unused, message_size)
           \<and> SerializeHeader env (response_header env call response is_success)
               (size_t_plus_int message_size
                  (word_of_nat (sum_list (map length (sidecars call)))))
               (response_buf call) message_size = (OK, buf1, header_size)
           \<and> SerializeMessage env response (Some buf1)
               (word_of_nat (sum_list (map length (sidecars call)))) True header_size
             = (OK, response_buf call', unused_size)
           \<and> (0 < header_size \<and> length buf1 = header_size + message_size
                 \<and> length (response_buf call') = length buf1 \<longrightarrow>
               Serialize call' out = Some (out @ response_buf call' # sidecars call)
               \<and> sum_list (map length (response_buf call' # sidecars call))
                   = header_size + message_size + sum_list (map length (sidecars call))))"
proof -
  from SerializeResponseBuffer_calls [OF assms]
  obtain unused message_size buf1 header_size unused_size where
    m1: "SerializeMessage env response None
           (word_of_nat (sum_list (map length (sidecars call)))) True 0
         = (OK, unused, message_size)"
    and h: "SerializeHeader env (response_header env call response is_success)
           (size_t_plus_int message_size (word_of_nat (sum_list (map length (sidecars call)))))
           (response_buf call) message_size = (OK, buf1, header_size)"
    and m2: "SerializeMessage env response (Some buf1)
           (word_of_nat (sum_list (map length (sidecars call)))) True header_size
         = (OK, response_buf call', unused_size)"
    and cars: "sidecars call' = sidecars call"
    by blast
  have ser: "Serialize call' out
      = (if response_buf call' = [] then None
         else Some (out @ response_buf call' # sidecars call))"
    by (simp add: Serialize_output cars)
  have sized: "Serialize call' out = Some (out @ response_buf call' # sidecars call)
      \<and> sum_list (map length (response_buf call' # sidecars call))
          = header_size + message_size + sum_list (map length (sidecars call))"
    if "0 < header_size \<and> length buf1 = header_size + message_size
        \<and> length (response_buf call') = length buf1"
    using that ser by auto
  have offsets: "map unat (sidecar_offsets (response_header env call response is_success))
           = map (\<lambda>i. payload_size env response + sum_list (map length (take i (sidecars call))))
               [0..<length (sidecars call)]
         \<longleftrightarrow> payload_size env response + sum_list (map length (butlast (sidecars call)))
               < 2 ^ 32"
    using offsets_exact_iff [of "word_of_int (ByteSize env response)" "sidecars call"]
    by (simp add: response_header_fields payload_size_def comp_def)
  from m1 h m2 sized have calls: "\<exists>unused message_size buf1 header_size unused_size.
           SerializeMessage env response None
               (word_of_nat (sum_list (map length (sidecars call)))) True 0
             = (OK, unused, message_size)
           \<and> SerializeHeader env (response_header env call response is_success)
               (size_t_plus_int message_size
                  (word_of_nat (sum_list (map length (sidecars call)))))
               (response_buf call) message_size = (OK, buf1, header_size)
           \<and> SerializeMessage env response (Some buf1)
               (word_of_nat (sum_list (map length (sidecars call)))) True header_size
             = (OK, response_buf call', unused_size)
           \<and> (0 < header_size \<and> length buf1 = header_size + message_size
                 \<and> length (response_buf call') = length buf1 \<longrightarrow>
               Serialize call' out = Some (out @ response_buf call' # sidecars call)
               \<and> sum_list (map length (response_buf call' # sidecars call))
                   = header_size + message_size + sum_list (map length (sidecars call)))"
    by blast
  from offsets ser calls show ?thesis
    by (simp add: response_header_fields(1,2))
qed

lemmas eval_serialize =
  SerializeResponseBuffer_def build_resp_hdr_def example_env_def example_SerializeHeader_def
  example_SerializeMessage_def Let_def ok_def YBInboundCall_new_def RequestHeader_default_def

lemma replicate_4: "replicate 4 x = [x, x, x, x]"
  by (simp add: eval_nat_numeral)

lemma replicate_5: "replicate 5 x = [x, x, x, x, x]"
  by (simp add: eval_nat_numeral)

lemma example_serialized:
  "SerializeResponseBuffer example_env example_call (ApplicationPB [9, 9, 9, 9]) True
     = (OK, example_call\<lparr>response_buf := [7, 0, 4, 7, 0, 0, 0, 0]\<rparr>)"
  by (simp add: eval_serialize example_call_def replicate_4)

text \<open>
  A success response with a payload of 4 bytes and sidecars of 3 and 2 bytes, with
  serializers that report 4 bytes for the payload and a header of 4 bytes: the offsets are
  4 and 7, and 4 + 4 + 5 bytes go out.
\<close>

theorem SerializeResponseBuffer_layout_witness:
  "SerializeResponseBuffer example_env example_call (ApplicationPB [9, 9, 9, 9]) True
     = (OK, example_call\<lparr>response_buf := [7, 0, 4, 7, 0, 0, 0, 0]\<rparr>)
   \<and> resp_call_id (response_header example_env example_call (ApplicationPB [9, 9, 9, 9]) True) = 7
   \<and> \<not> is_error (response_header example_env example_call (ApplicationPB [9, 9, 9, 9]) True)
   \<and> map unat (sidecar_offsets
         (response_header example_env example_call (ApplicationPB [9, 9, 9, 9]) True)) = [4, 7]
   \<and> Serialize (example_call\<lparr>response_buf := [7, 0, 4, 7, 0, 0, 0, 0]\<rparr>) []
       = Some [[7, 0, 4, 7, 0, 0, 0, 0], [1, 2, 3], [4, 5]]
   \<and> sum_list (map length [[7, 0, 4, 7, 0, 0, 0, 0], [1, 2, 3], [4, 5 :: byte]]) = 4 + 4 + (3 + 2)"
proof -
  let ?call' = "example_call\<lparr>response_buf := [7, 0, 4, 7, 0, 0, 0, 0]\<rparr>"
  have ps: "payload_size example_env (ApplicationPB [9, 9, 9, 9]) = 4"
    by (simp add: payload_size_def example_env_def)
  have cars: "sidecars example_call = [[1, 2, 3], [4, 5]]"
    "hdr_call_id (header example_call) = 7" "response_buf example_call = []"
    by (simp_all add: example_call_def YBInboundCall_new_def)
  have up: "[0..<2] = [0, 1]"
    by (simp add: upt_rec)
  have sm: "SerializeMessage example_env m b a c off
      = (OK, (case b of None \<Rightarrow> [] | Some x \<Rightarrow> x), nat (example_ByteSize m))" for m b a c off
    by (simp add: example_env_def example_SerializeMessage_def)
  have sh: "SerializeHeader example_env h pl b r = (OK, hb, hs)
      \<Longrightarrow> hs = 2 + length (sidecar_offsets h) \<and> length hb = hs + r" for h pl b r hb hs
    by (auto simp add: example_env_def example_SerializeHeader_def Let_def)
  note layout = SerializeResponseBuffer_layout [OF example_serialized, where out = "[]"]
  from layout have f1:
    "resp_call_id (response_header example_env example_call (ApplicationPB [9, 9, 9, 9]) True) = 7"
    "\<not> is_error (response_header example_env example_call (ApplicationPB [9, 9, 9, 9]) True)"
    by (simp_all add: cars)
  from layout have f2: "map unat (sidecar_offsets
         (response_header example_env example_call (ApplicationPB [9, 9, 9, 9]) True)) = [4, 7]"
    by (simp add: ps cars up)
  from layout obtain unused message_size buf1 header_size unused_size where
    m1: "SerializeMessage example_env (ApplicationPB [9, 9, 9, 9]) None
           (word_of_nat (sum_list (map length (sidecars example_call)))) True 0
         = (OK, unused, message_size)"
    and h: "SerializeHeader example_env
           (response_header example_env example_call (ApplicationPB [9, 9, 9, 9]) True)
           (size_t_plus_int message_size
              (word_of_nat (sum_list (map length (sidecars example_call)))))
           (response_buf example_call) message_size = (OK, buf1, header_size)"
    and m2: "SerializeMessage example_env (ApplicationPB [9, 9, 9, 9]) (Some buf1)
           (word_of_nat (sum_list (map length (sidecars example_call)))) True header_size
         = (OK, response_buf ?call', unused_size)"
    and sized: "0 < header_size \<and> length buf1 = header_size + message_size
                 \<and> length (response_buf ?call') = length buf1 \<longrightarrow>
               Serialize ?call' [] = Some ([] @ response_buf ?call' # sidecars example_call)
               \<and> sum_list (map length (response_buf ?call' # sidecars example_call))
                   = header_size + message_size + sum_list (map length (sidecars example_call))"
    by blast
  from m1 have ms: "message_size = 4"
    by (simp add: sm)
  from sh [OF h] f2 have hs: "header_size = 4" "length buf1 = header_size + message_size"
    by (auto dest: arg_cong [where f = length])
  from m2 have "length (response_buf ?call') = length buf1"
    by (simp add: sm)
  with sized hs ms
  have "Serialize ?call' [] = Some ([] @ response_buf ?call' # sidecars example_call)
      \<and> sum_list (map length (response_buf ?call' # sidecars example_call))
          = 4 + 4 + sum_list (map length (sidecars example_call))"
    by simp
  with f1 f2 show ?thesis
    by (simp add: example_serialized cars)
qed

lemma length_huge_sidecar: "length huge_sidecar = 4294967296"
  by (simp only: huge_sidecar_def length_replicate) simp

lemma delimited_serialized:
  "SerializeResponseBuffer delimiting_env example_call (ApplicationPB [9, 9, 9, 9]) True
     = (OK, example_call\<lparr>response_buf := [7, 0, 4, 7, 0, 0, 0, 0, 0]\<rparr>)"
  by (simp add: eval_serialize delimiting_env_def example_call_def replicate_5)

text \<open>
  Claim C1 as stated fails in two places. The offsets are \<open>uint32_t\<close> values: with an empty
  payload and sidecars of \<open>2 ^ 32\<close> bytes and 1 byte the claim asks for the offsets 0 and
  4294967296, and the header holds 0 and 0. And the size of the response buffer follows
  \<open>message_size\<close>, which the payload serializer reports, not \<open>protobuf_msg_size\<close>: with a
  serializer that reports one byte more than the payload size (a length delimiter), a
  payload of 4 bytes, a header of 4 bytes and sidecars of 3 and 2 bytes, 14 bytes go out, not
  4 + 4 + 5.
\<close>

theorem SerializeResponseBuffer_claim_counterexample:
  "fst (SerializeResponseBuffer example_env huge_call (ApplicationPB []) True) = OK
   \<and> payload_size example_env (ApplicationPB []) = 0
   \<and> map length (sidecars huge_call) = [4294967296, 1]
   \<and> map unat (sidecar_offsets (response_header example_env huge_call (ApplicationPB []) True))
       = [0, 0]
   \<and> map unat (sidecar_offsets (response_header example_env huge_call (ApplicationPB []) True))
       \<noteq> [0, 0 + 4294967296]
   \<and> SerializeResponseBuffer delimiting_env example_call (ApplicationPB [9, 9, 9, 9]) True
       = (OK, example_call\<lparr>response_buf := [7, 0, 4, 7, 0, 0, 0, 0, 0]\<rparr>)
   \<and> payload_size delimiting_env (ApplicationPB [9, 9, 9, 9]) = 4
   \<and> SerializeHeader delimiting_env
         (response_header delimiting_env example_call (ApplicationPB [9, 9, 9, 9]) True)
         10 [] 5 = (OK, [7, 0, 4, 7, 0, 0, 0, 0, 0], 4)
   \<and> Serialize (example_call\<lparr>response_buf := [7, 0, 4, 7, 0, 0, 0, 0, 0]\<rparr>) []
       = Some [[7, 0, 4, 7, 0, 0, 0, 0, 0], [1, 2, 3], [4, 5]]
   \<and> sum_list (map length [[7, 0, 4, 7, 0, 0, 0, 0, 0], [1, 2, 3], [4, 5 :: byte]]) = 14
   \<and> sum_list (map length [[7, 0, 4, 7, 0, 0, 0, 0, 0], [1, 2, 3], [4, 5 :: byte]])
       \<noteq> 4 + 4 + (3 + 2)"
proof -
  have ok: "fst (SerializeResponseBuffer example_env huge_call (ApplicationPB []) True) = OK"
    by (simp add: SerializeResponseBuffer_def example_env_def example_SerializeHeader_def
        example_SerializeMessage_def Let_def ok_def split: prod.splits)
  have ps: "payload_size example_env (ApplicationPB []) = 0"
    "payload_size delimiting_env (ApplicationPB [9, 9, 9, 9]) = 4"
    by (simp_all add: payload_size_def example_env_def delimiting_env_def)
  have cars: "sidecars huge_call = [huge_sidecar, [1]]"
    by (simp add: huge_call_def)
  have offs: "sidecar_offsets (response_header example_env huge_call (ApplicationPB []) True)
      = [0, 0]"
    by (simp add: response_header_def build_resp_hdr_def cars length_huge_sidecar example_env_def)
  have hdr: "SerializeHeader delimiting_env
         (response_header delimiting_env example_call (ApplicationPB [9, 9, 9, 9]) True)
         10 [] 5 = (OK, [7, 0, 4, 7, 0, 0, 0, 0, 0], 4)"
    by (simp add: response_header_def build_resp_hdr_def delimiting_env_def example_env_def
        example_SerializeHeader_def example_call_def YBInboundCall_new_def
        RequestHeader_default_def Let_def replicate_5)
  have ser: "Serialize (example_call\<lparr>response_buf := [7, 0, 4, 7, 0, 0, 0, 0, 0]\<rparr>) []
       = Some [[7, 0, 4, 7, 0, 0, 0, 0, 0], [1, 2, 3], [4, 5]]"
    by (simp add: Serialize_def example_call_def)
  from ok ps cars offs hdr ser delimited_serialized show ?thesis
    by (simp add: length_huge_sidecar)
qed

subsection \<open>Responding when serialization fails\<close>

lemma failing_serialize:
  "SerializeResponseBuffer failing_env call response is_success
     = (STATUS InvalidArgument ''RPC argument missing required fields'', call)"
  by (simp add: SerializeResponseBuffer_def failing_env_def example_env_def Let_def ok_def
      STATUS_def split: prod.splits)

text \<open>
  Claim C7 says that a response that failed to serialize is not queued. In \<open>Respond\<close> the
  call to \<open>QueueResponse\<close> follows the log statement without a return in between: where
  \<open>LOG(DFATAL)\<close> is not fatal, the call is queued on the outbound path all the same.
\<close>

theorem Respond_queues_after_failure_counterexample:
  "\<not> ok (fst (SerializeResponseBuffer failing_env example_call (ApplicationPB [9]) True))
   \<and> Respond failing_env (example_conn SERVER) example_call (ApplicationPB [9]) True
      = Returns ((example_conn SERVER)
                   \<lparr>outbound_queue := [(example_call, True)],
                    logged := [(ERROR, unable_to_serialize
                      (STATUS InvalidArgument ''RPC argument missing required fields''))]\<rparr>,
                 example_call)
   \<and> outbound_queue ((example_conn SERVER)
                   \<lparr>outbound_queue := [(example_call, True)],
                    logged := [(ERROR, unable_to_serialize
                      (STATUS InvalidArgument ''RPC argument missing required fields''))]\<rparr>)
      \<noteq> []"
  by (simp add: Respond_def failing_serialize LOG_DFATAL_def QueueResponse_def
      unable_to_serialize_def STATUS_def ok_def)
    (simp add: failing_env_def example_env_def example_conn_def)

text \<open>
  Claim C7, amended. When \<open>SerializeResponseBuffer\<close> fails inside \<open>Respond\<close>, the failure
  is logged with \<open>LOG(DFATAL)\<close>, a message for developers: the process ends there in a debug
  build, and otherwise the message is added to the log as an error. It is not propagated:
  \<open>Respond\<close> returns no status.
\<close>

theorem Respond_logs_serialization_failure:
  "\<not> ok (fst (SerializeResponseBuffer env call response is_success)) \<longrightarrow>
     (dfatal_is_fatal env \<longrightarrow>
        Respond env conn call response is_success
          = Aborts (unable_to_serialize
              (fst (SerializeResponseBuffer env call response is_success))))
     \<and> (\<not> dfatal_is_fatal env \<longrightarrow>
        (\<exists>conn' call'. Respond env conn call response is_success = Returns (conn', call')
           \<and> logged conn' = logged conn
                @ [(ERROR, unable_to_serialize
                     (fst (SerializeResponseBuffer env call response is_success)))]))"
  by (auto simp add: Respond_def LOG_DFATAL_def QueueResponse_def unable_to_serialize_def
      split: prod.splits)

theorem Respond_logs_serialization_failure_witness:
  "(\<exists>conn' call'. Respond failing_env (example_conn SERVER) example_call (ApplicationPB [9]) True
        = Returns (conn', call')
      \<and> logged conn' = [(ERROR, unable_to_serialize
           (STATUS InvalidArgument ''RPC argument missing required fields''))])
   \<and> Respond (failing_env\<lparr>dfatal_is_fatal := True\<rparr>) (example_conn SERVER) example_call
        (ApplicationPB [9]) True
      = Aborts (unable_to_serialize
           (STATUS InvalidArgument ''RPC argument missing required fields''))"
proof -
  have fatal: "SerializeResponseBuffer (failing_env\<lparr>dfatal_is_fatal := True\<rparr>) example_call
      (ApplicationPB [9]) True
     = (STATUS InvalidArgument ''RPC argument missing required fields'', example_call)"
    by (simp add: SerializeResponseBuffer_def failing_env_def example_env_def Let_def ok_def
        STATUS_def split: prod.splits)
  have nok: "\<not> ok (STATUS InvalidArgument ''RPC argument missing required fields'')"
    by (simp add: STATUS_def ok_def)
  have flags: "\<not> dfatal_is_fatal failing_env" "logged (example_conn SERVER) = []"
    by (simp_all add: failing_env_def example_env_def example_conn_def)
  from Respond_logs_serialization_failure [where env = failing_env
      and conn = "example_conn SERVER" and call = example_call
      and response = "ApplicationPB [9]" and is_success = True]
    Respond_logs_serialization_failure [where env = "failing_env\<lparr>dfatal_is_fatal := True\<rparr>"
      and conn = "example_conn SERVER" and call = example_call
      and response = "ApplicationPB [9]" and is_success = True]
  show ?thesis
    by (simp add: failing_serialize fatal nok flags)
qed

text \<open>
  Claim C8 says that the response buffer is not empty once a responder has run, so that the
  check in \<open>Serialize\<close> holds. When the payload serializer reports an error and
  \<open>LOG(DFATAL)\<close> is not fatal, each of the three responders returns with the call queued
  and its response buffer still empty, and \<open>Serialize\<close> on this call fails its check.
\<close>

theorem Respond_failure_leaves_empty_buffer:
  "RespondSuccess failing_env (example_conn SERVER) example_call (ApplicationPB [9])
      = Returns ((example_conn SERVER)
                   \<lparr>outbound_queue := [(example_call, True)],
                    logged := [(ERROR, unable_to_serialize
                      (STATUS InvalidArgument ''RPC argument missing required fields''))]\<rparr>,
                 example_call)
   \<and> RespondFailure failing_env (example_conn SERVER) example_call ERROR_INVALID_REQUEST
        (STATUS InvalidArgument ''bad parameter'')
      = Returns ((example_conn SERVER)
                   \<lparr>outbound_queue := [(example_call, False)],
                    logged := [(ERROR, unable_to_serialize
                      (STATUS InvalidArgument ''RPC argument missing required fields''))]\<rparr>,
                 example_call)
   \<and> RespondApplicationError failing_env (example_conn SERVER) example_call 101 ''no such row''
        (ApplicationPB [1])
      = Returns ((example_conn SERVER)
                   \<lparr>outbound_queue := [(example_call, False)],
                    logged := [(ERROR, unable_to_serialize
                      (STATUS InvalidArgument ''RPC argument missing required fields''))]\<rparr>,
                 example_call)
   \<and> response_buf example_call = []
   \<and> Serialize example_call [] = None"
proof -
  have env: "\<not> dfatal_is_fatal failing_env" "FindKnownExtensionByNumber failing_env 101"
    by (simp_all add: failing_env_def example_env_def)
  have conn: "QueueResponse ((example_conn SERVER)\<lparr>logged := logged (example_conn SERVER) @ [e]\<rparr>)
        example_call b
      = (example_conn SERVER)\<lparr>outbound_queue := [(example_call, b)], logged := [e]\<rparr>" for e b
    by (simp add: QueueResponse_def example_conn_def)
  have nok: "\<not> ok (STATUS InvalidArgument ''RPC argument missing required fields'')"
    by (simp add: STATUS_def ok_def)
  have respond: "Respond failing_env (example_conn SERVER) example_call response b
      = Returns ((example_conn SERVER)
                   \<lparr>outbound_queue := [(example_call, b)],
                    logged := [(ERROR, unable_to_serialize
                      (STATUS InvalidArgument ''RPC argument missing required fields''))]\<rparr>,
                 example_call)" for response b
    by (simp add: Respond_def failing_serialize LOG_DFATAL_def env nok conn)
  have buf: "response_buf example_call = []"
    by (simp add: example_call_def YBInboundCall_new_def)
  from respond buf env show ?thesis
    by (simp add: RespondSuccess_def RespondFailure_def RespondApplicationError_def
        ApplicationErrorToPB_def Serialize_def)
qed

end
